theory Spec2Isabelle
  imports Main "HOL-Library.Word"
begin

section \<open>Preview-environment finalize handler and provisioning handlers\<close>

text \<open>
  A shallow embedding of \<^verbatim>\<open>FinalizeDeploymentHandler.ServeHTTP\<close>
  (api/server/handlers/environment/finalize_deployment.go) and of the handlers
  \<^verbatim>\<open>HandleProvisionAWSECRInfra\<close> and \<^verbatim>\<open>HandleGetProvisioningLogs\<close> of package api.
  Go strings are byte strings and are modelled as \<^typ>\<open>string\<close>; Go's \<^verbatim>\<open>uint\<close> and
  \<^verbatim>\<open>int64\<close> are 64-bit words; a Go \<^verbatim>\<open>error\<close> value is represented by its message.
\<close>

subsection \<open>Formatting verbs\<close>

type_synonym err = string
type_synonym uint = "64 word"
type_synonym int64 = "64 word"

text \<open>The verb \<^verbatim>\<open>%d\<close> applied to an unsigned value: its decimal digits.\<close>

definition digit :: "nat \<Rightarrow> char" where
  "digit n = ''0123456789'' ! n"

fun decimal :: "nat \<Rightarrow> string" where
  "decimal n = (if n < 10 then [digit n] else decimal (n div 10) @ [digit (n mod 10)])"

declare decimal.simps [simp del]

definition fmt_uint :: "uint \<Rightarrow> string" where
  "fmt_uint u = decimal (unat u)"

subsection \<open>Data model\<close>

text \<open>
  Modelled from the spec: the enumeration \<^verbatim>\<open>types.DeploymentStatus\<close> is declared in
  package api/types; its values are the states of the Deployment state machine.
\<close>

datatype DeploymentStatus =
  DeploymentStatusCreated
| DeploymentStatusCreating
| DeploymentStatusFailed
| DeploymentStatusTimedOut
| DeploymentStatusClosing
| DeploymentStatusClosed

record Deployment =
  depl_ID :: uint
  EnvironmentID :: uint
  Namespace :: string
  Status :: DeploymentStatus
  Subdomain :: string
  PullRequestID :: uint
  GHDeploymentID :: int64
  CommitSHA :: string
  RepoOwner :: string
  RepoName :: string
  PRBranchFrom :: string

record SuccessfullyDeployedResource =
  ReleaseName :: string
  ReleaseType :: string

subsection \<open>The pull-request comment\<close>

text \<open>The sentinel written into \<^verbatim>\<open>depl.Subdomain\<close> when the subdomain is empty.\<close>

definition ingress_disabled :: string where
  "ingress_disabled = ''*Ingress is disabled for this deployment*''"

text \<open>The three UTF-8 bytes of the check mark that opens the second line of the comment.\<close>

definition check_mark :: string where
  "check_mark = [char_of (0xE2 :: nat), char_of (0x9C :: nat), char_of (0x85 :: nat)]"

definition commit_link :: "Deployment \<Rightarrow> string" where
  "commit_link depl =
     ''[`'' @ CommitSHA depl @ ''`](https://github.com/'' @ RepoOwner depl @ ''/''
       @ RepoName depl @ ''/commit/'' @ CommitSHA depl @ '')''"

text \<open>The first \<^verbatim>\<open>fmt.Sprintf\<close>: the table of deployment information.\<close>

definition comment_table :: "string \<Rightarrow> Deployment \<Rightarrow> string \<Rightarrow> string" where
  "comment_table ServerURL depl html_url =
     ''## Porter Preview Environments\<newline>''
     @ check_mark @ '' All changes deployed successfully\<newline>''
     @ ''||Deployment Information|\<newline>''
     @ ''|-|-|\<newline>''
     @ ''| Latest SHA | '' @ commit_link depl @ '' |\<newline>''
     @ ''| Live URL | '' @ Subdomain depl @ '' |\<newline>''
     @ ''| Build Logs | '' @ html_url @ '' |\<newline>''
     @ ''| Porter Deployments URL | '' @ ServerURL @ ''/preview-environments/details/''
     @ Namespace depl @ ''?environment_id='' @ fmt_uint (EnvironmentID depl) @ '' |''"

text \<open>The two link templates of the loop over \<^verbatim>\<open>request.SuccessfulResources\<close>.\<close>

definition job_link :: "string \<Rightarrow> string \<Rightarrow> string \<Rightarrow> uint \<Rightarrow> string \<Rightarrow> string" where
  "job_link ServerURL cluster_name ns project_id rname =
     ''- [`'' @ rname @ ''`]('' @ ServerURL @ ''/jobs/'' @ cluster_name @ ''/'' @ ns @ ''/''
       @ rname @ ''?project_id='' @ fmt_uint project_id @ '')\<newline>''"

definition application_link :: "string \<Rightarrow> string \<Rightarrow> string \<Rightarrow> uint \<Rightarrow> string \<Rightarrow> string" where
  "application_link ServerURL cluster_name ns project_id rname =
     ''- [`'' @ rname @ ''`]('' @ ServerURL @ ''/applications/'' @ cluster_name @ ''/'' @ ns @ ''/''
       @ rname @ ''?project_id='' @ fmt_uint project_id @ '')\<newline>''"

text \<open>The loop body appends one line to the comment; the loop runs over the resources in order.\<close>

fun append_resources ::
  "string \<Rightarrow> string \<Rightarrow> string \<Rightarrow> uint \<Rightarrow> string \<Rightarrow> SuccessfullyDeployedResource list \<Rightarrow> string"
where
  "append_resources ServerURL cluster_name ns project_id commentBody [] = commentBody"
| "append_resources ServerURL cluster_name ns project_id commentBody (res # rest) =
     (if ReleaseType res = ''job''
      then append_resources ServerURL cluster_name ns project_id
             (commentBody @ job_link ServerURL cluster_name ns project_id (ReleaseName res)) rest
      else append_resources ServerURL cluster_name ns project_id
             (commentBody @ application_link ServerURL cluster_name ns project_id (ReleaseName res)) rest)"

definition commentBody ::
  "string \<Rightarrow> string \<Rightarrow> uint \<Rightarrow> Deployment \<Rightarrow> string \<Rightarrow> SuccessfullyDeployedResource list \<Rightarrow> string"
where
  "commentBody ServerURL cluster_name project_id depl html_url resources =
     (let body = comment_table ServerURL depl html_url in
      if length resources > 0
      then append_resources ServerURL cluster_name (Namespace depl) project_id
             (body @ ''\<newline>#### Successfully deployed resources\<newline>'') resources
      else body)"

subsection \<open>Collaborators of the finalize handler\<close>

record Environment =
  env_ID :: uint
  env_Name :: string
  GitRepoOwner :: string
  GitRepoName :: string

record FinalizeDeploymentRequest =
  req_Namespace :: string
  req_Subdomain :: string
  SuccessfulResources :: "SuccessfullyDeployedResource list"

text \<open>The two constructors of package apierrors that the handler uses.\<close>

datatype apierror =
  NewErrInternal err
| NewErrPassThroughToClient err nat

definition StatusConflict :: nat where
  "StatusConflict = 409"

definition StatusNotFound :: nat where
  "StatusNotFound = 404"

text \<open>
  Modelled from the spec: the error taxonomy. An error made by \<^verbatim>\<open>NewErrInternal\<close> is of
  class Internal; an error passed through to the client has the class of its status code.
\<close>

datatype error_class = NotFound | Conflict | Internal | OtherClass

definition class_of :: "apierror \<Rightarrow> error_class" where
  "class_of e =
     (case e of
        NewErrInternal _ \<Rightarrow> Internal
      | NewErrPassThroughToClient _ code \<Rightarrow>
          if code = StatusNotFound then NotFound
          else if code = StatusConflict then Conflict
          else OtherClass)"

text \<open>The values of go-github that the handler reads, with their nil-safe getters.\<close>

record PullRequest =
  State :: "string option"

definition GetState :: "PullRequest \<Rightarrow> string" where
  "GetState pr = (case State pr of None \<Rightarrow> [] | Some s \<Rightarrow> s)"

record WorkflowRun =
  HTMLURL :: "string option"

definition GetHTMLURL :: "WorkflowRun \<Rightarrow> string" where
  "GetHTMLURL run = (case HTMLURL run of None \<Rightarrow> [] | Some u \<Rightarrow> u)"

record DeploymentStatusRequest =
  dsr_State :: string
  EnvironmentURL :: string

text \<open>
  Modelled from the spec: the backing store and the pull-request system are interfaces
  whose implementations live in other packages. Each operation is a function of
  the arguments the handler passes; a read yields an error or a value, a write yields an
  error or nothing. \<^verbatim>\<open>UpdateDeployment\<close> either fails or writes the row it is given and
  hands that same row back. \<^verbatim>\<open>ServerURL\<close> stands for \<^verbatim>\<open>Config().ServerConf.ServerURL\<close>.
\<close>

record backend =
  ReadEnvironment :: "uint \<Rightarrow> uint \<Rightarrow> uint \<Rightarrow> string \<Rightarrow> string \<Rightarrow> err + Environment"
  ReadDeployment :: "uint \<Rightarrow> string \<Rightarrow> err + Deployment"
  UpdateDeployment :: "Deployment \<Rightarrow> err option"
  getGithubClientFromEnvironment :: "Environment \<Rightarrow> err option"
  CreateDeploymentStatus ::
    "string \<Rightarrow> string \<Rightarrow> int64 \<Rightarrow> DeploymentStatusRequest \<Rightarrow> err option"
  PullRequests_Get :: "string \<Rightarrow> string \<Rightarrow> int \<Rightarrow> err + PullRequest"
  GetLatestWorkflowRun :: "string \<Rightarrow> string \<Rightarrow> string \<Rightarrow> string \<Rightarrow> err + WorkflowRun"
  Issues_CreateComment :: "string \<Rightarrow> string \<Rightarrow> int \<Rightarrow> string \<Rightarrow> err option"
  ServerURL :: string

text \<open>
  What the handler finds in the request: the scopes put into the context by the
  middleware, the result of \<^verbatim>\<open>GetOwnerAndNameParams\<close> and the result of
  \<^verbatim>\<open>DecodeAndValidate\<close> (\<open>None\<close> when the helper answered the request itself).
\<close>

record finalize_request =
  InstallationID :: int64
  project_ID :: uint
  cluster_ID :: uint
  cluster_Name :: string
  owner_and_name :: "(string \<times> string) option"
  decoded :: "FinalizeDeploymentRequest option"

text \<open>The calls the handler makes to the pull-request system, with their arguments.\<close>

datatype gh_call =
  CreateDeploymentStatusCall string string int64 DeploymentStatusRequest
| PullRequestsGetCall string string int
| GetLatestWorkflowRunCall string string string string
| CreateCommentCall string string int string

text \<open>
  How a call of the handler ends: a helper has already answered (\<open>Rejected\<close>),
  \<^verbatim>\<open>HandleAPIError\<close> is called, or \<^verbatim>\<open>WriteResult\<close> is called with the view of a Deployment.
\<close>

datatype outcome = Rejected | Failed apierror | Written Deployment

record finalize_result =
  outcome :: outcome
  saved :: "Deployment option"
  calls :: "gh_call list"

definition finish :: "outcome \<Rightarrow> Deployment option \<Rightarrow> gh_call list \<Rightarrow> finalize_result" where
  "finish out row cs = \<lparr>outcome = out, saved = row, calls = cs\<rparr>"

text \<open>The conversion \<^verbatim>\<open>int(depl.PullRequestID)\<close> keeps the 64 bits and reads them signed.\<close>

definition int_of_uint :: "uint \<Rightarrow> int" where
  "int_of_uint u = sint u"

subsection \<open>isGithubPRClosed\<close>

definition isGithubPRClosed :: "backend \<Rightarrow> string \<Rightarrow> string \<Rightarrow> int \<Rightarrow> err + bool" where
  "isGithubPRClosed b owner name prNumber =
     (case PullRequests_Get b owner name prNumber of
        Inl e \<Rightarrow> Inl e
      | Inr ghPR \<Rightarrow> Inr (GetState ghPR = ''closed''))"

subsection \<open>FinalizeDeploymentHandler.ServeHTTP\<close>

definition pr_fetch_error :: "Deployment \<Rightarrow> err \<Rightarrow> err" where
  "pr_fetch_error depl e =
     ''error fetching details of github PR for deployment ID: '' @ fmt_uint (depl_ID depl)
       @ ''. Error: '' @ e"

definition workflow_file :: "Environment \<Rightarrow> string" where
  "workflow_file env = ''porter_'' @ env_Name env @ ''_env.yml''"

text \<open>
  Lines 132 to 134: an empty subdomain is replaced, on the Deployment in memory, by the
  sentinel before the comment is composed.
\<close>

definition render_ingress :: "Deployment \<Rightarrow> Deployment" where
  "render_ingress depl =
     (if Subdomain depl = [] then depl\<lparr>Subdomain := ingress_disabled\<rparr> else depl)"

definition ServeHTTP :: "backend \<Rightarrow> finalize_request \<Rightarrow> finalize_result" where
  "ServeHTTP c r =
    (case owner_and_name r of
       None \<Rightarrow> finish Rejected None []
     | Some (owner, name) \<Rightarrow>
    (case decoded r of
       None \<Rightarrow> finish Rejected None []
     | Some request \<Rightarrow>
    (case ReadEnvironment c (project_ID r) (cluster_ID r) (InstallationID r) owner name of
       Inl e \<Rightarrow> finish (Failed (NewErrInternal e)) None []
     | Inr env \<Rightarrow>
    (case ReadDeployment c (env_ID env) (req_Namespace request) of
       Inl e \<Rightarrow> finish (Failed (NewErrInternal e)) None []
     | Inr depl0 \<Rightarrow>
    (let depl = depl0\<lparr>Subdomain := req_Subdomain request, Status := DeploymentStatusCreated\<rparr> in
    (case UpdateDeployment c depl of
       Some e \<Rightarrow> finish (Failed (NewErrInternal e)) None []
     | None \<Rightarrow>
    (case getGithubClientFromEnvironment c env of
       Some e \<Rightarrow> finish (Failed (NewErrInternal e)) (Some depl) []
     | None \<Rightarrow>
    (let deploymentStatusRequest = \<lparr>dsr_State = ''success'', EnvironmentURL = Subdomain depl\<rparr>;
         cs1 = [CreateDeploymentStatusCall (GitRepoOwner env) (GitRepoName env)
                  (GHDeploymentID depl) deploymentStatusRequest] in
    (case CreateDeploymentStatus c (GitRepoOwner env) (GitRepoName env)
            (GHDeploymentID depl) deploymentStatusRequest of
       Some e \<Rightarrow> finish (Failed (NewErrInternal e)) (Some depl) cs1
     | None \<Rightarrow>
    (let cs2 = cs1 @ [PullRequestsGetCall owner name (int_of_uint (PullRequestID depl))] in
    (case isGithubPRClosed c owner name (int_of_uint (PullRequestID depl)) of
       Inl e \<Rightarrow>
         finish (Failed (NewErrPassThroughToClient (pr_fetch_error depl e) StatusConflict))
           (Some depl) cs2
     | Inr prClosed \<Rightarrow>
    (if prClosed
     then finish (Failed (NewErrPassThroughToClient ''Github PR has been closed'' StatusConflict))
            (Some depl) cs2
     else
    (let cs3 = cs2 @ [GetLatestWorkflowRunCall (RepoOwner depl) (RepoName depl)
                        (workflow_file env) (PRBranchFrom depl)] in
    (case GetLatestWorkflowRun c (RepoOwner depl) (RepoName depl)
            (workflow_file env) (PRBranchFrom depl) of
       Inl e \<Rightarrow> finish (Failed (NewErrInternal e)) (Some depl) cs3
     | Inr workflowRun \<Rightarrow>
    (let depl' = render_ingress depl;
         body = commentBody (ServerURL c) (cluster_Name r) (project_ID r) depl'
                  (GetHTMLURL workflowRun) (SuccessfulResources request);
         cs4 = cs3 @ [CreateCommentCall (GitRepoOwner env) (GitRepoName env)
                        (int_of_uint (PullRequestID depl')) body] in
    (case Issues_CreateComment c (GitRepoOwner env) (GitRepoName env)
            (int_of_uint (PullRequestID depl')) body of
       Some e \<Rightarrow> finish (Failed (NewErrInternal e)) (Some depl) cs4
     | None \<Rightarrow> finish (Written depl') (Some depl) cs4))))))))))))))))"

subsection \<open>Package api: the provisioning handlers\<close>

record CreateECRInfra =
  form_ProjectID :: uint
  ECRName :: string

record AWSInfra =
  infra_ID :: uint
  AWSIntegrationID :: uint

record AWSIntegration =
  awsint_ID :: uint

text \<open>
  An incoming request: \<^verbatim>\<open>chi.URLParam(r, key)\<close> is \<open>URLParam r key\<close> (the empty string
  for a key the route does not bind) and \<open>Body\<close> is the request body.
\<close>

record http_request =
  URLParam :: "string \<Rightarrow> string"
  Body :: string

text \<open>The error helpers of \<^verbatim>\<open>App\<close> that the handlers call, each with the error it is given.\<close>

datatype app_error =
  handleErrorFormDecoding "err option"
| handleErrorFormValidation err
| handleErrorDataWrite err
| handleErrorDataRead err
| handleErrorInternal err
| handleErrorUpgradeWebsocket err
| handleErrorWebsocketWrite err


text \<open>
  A provisioning job as the launch handler hands it to the execution substrate: the
  three arguments of \<^verbatim>\<open>agent.ProvisionECR\<close> (project ID, AWS integration, ECR name).
\<close>

type_synonym job = "uint \<times> AWSIntegration \<times> string"

type_synonym conn = nat

text \<open>
  Modelled from the spec: what lies behind the collaborators of a launch and outlives a
  request. \<^verbatim>\<open>running\<close> lists the jobs the execution substrate has accepted and not finished
  (a launch returns once the job is accepted, not when it completes); \<^verbatim>\<open>next_infra_ID\<close> is
  the ID the store gives the next infra row it creates.
\<close>

record world =
  running :: "job list"
  next_infra_ID :: uint

text \<open>
  Modelled from the spec: what \<^verbatim>\<open>App\<close> reaches from the two handlers, all of it
  defined in other packages. \<^verbatim>\<open>ParseUint s\<close> is \<^verbatim>\<open>strconv.ParseUint(s, 0, 64)\<close>; \<^verbatim>\<open>Decode\<close> fills the
  form from the JSON body; \<^verbatim>\<open>CreateAWSInfra\<close> fails or stores the row under the next ID of
  the store and hands it back with that ID; \<^verbatim>\<open>ProvisionECR\<close> is the answer of the execution
  substrate to the job, which may depend on the jobs in flight; \<^verbatim>\<open>Upgrade\<close> is the websocket
  upgrade and \<^verbatim>\<open>ResourceStream\<close> the relay of the named stream to a connection.
\<close>

record App =
  ParseUint :: "string \<Rightarrow> err + uint"
  Decode :: "string \<Rightarrow> CreateECRInfra \<Rightarrow> err + CreateECRInfra"
  validator_Struct :: "CreateECRInfra \<Rightarrow> err option"
  ToAWSInfra :: "CreateECRInfra \<Rightarrow> err + AWSInfra"
  CreateAWSInfra :: "AWSInfra \<Rightarrow> err option"
  ReadAWSIntegration :: "uint \<Rightarrow> err + AWSIntegration"
  GetAgentInClusterConfig :: "err option"
  ProvisionECR :: "job list \<Rightarrow> uint \<Rightarrow> AWSIntegration \<Rightarrow> string \<Rightarrow> err option"
  Encode :: "AWSInfra \<Rightarrow> err option"
  Upgrade :: "http_request \<Rightarrow> err + conn"
  ResourceStream :: "string \<Rightarrow> conn option \<Rightarrow> err option"

text \<open>
  How \<^verbatim>\<open>HandleProvisionAWSECRInfra\<close> ends: one error helper, or the header
  \<^verbatim>\<open>StatusCreated\<close> followed by the encoded infra (or by the helper called when the
  encoding fails). \<^verbatim>\<open>launched\<close> lists the jobs handed to \<^verbatim>\<open>ProvisionECR\<close>.
\<close>

datatype provision_outcome =
  Refused app_error
| StatusCreated AWSInfra "app_error option"

record provision_result =
  answer :: provision_outcome
  launched :: "job list"

definition HandleProvisionAWSECRInfra ::
  "App \<Rightarrow> world \<Rightarrow> http_request \<Rightarrow> provision_result \<times> world"
where
  "HandleProvisionAWSECRInfra app w r =
    (let parsed = ParseUint app (URLParam r ''project_id'') in
    (case (case parsed of Inl e \<Rightarrow> Inl (Some e)
                        | Inr projID \<Rightarrow> if projID = 0 then Inl None else Inr projID) of
       Inl e \<Rightarrow> (\<lparr>answer = Refused (handleErrorFormDecoding e), launched = []\<rparr>, w)
     | Inr projID \<Rightarrow>
    (case Decode app (Body r) \<lparr>form_ProjectID = projID, ECRName = []\<rparr> of
       Inl e \<Rightarrow> (\<lparr>answer = Refused (handleErrorFormDecoding (Some e)), launched = []\<rparr>, w)
     | Inr form \<Rightarrow>
    (case validator_Struct app form of
       Some e \<Rightarrow> (\<lparr>answer = Refused (handleErrorFormValidation e), launched = []\<rparr>, w)
     | None \<Rightarrow>
    (case ToAWSInfra app form of
       Inl e \<Rightarrow> (\<lparr>answer = Refused (handleErrorFormDecoding (Some e)), launched = []\<rparr>, w)
     | Inr infra0 \<Rightarrow>
    (case CreateAWSInfra app infra0 of
       Some e \<Rightarrow> (\<lparr>answer = Refused (handleErrorDataWrite e), launched = []\<rparr>, w)
     | None \<Rightarrow>
    (let infra = infra0\<lparr>infra_ID := next_infra_ID w\<rparr>;
         w1 = w\<lparr>next_infra_ID := next_infra_ID w + 1\<rparr> in
    (case ReadAWSIntegration app (AWSIntegrationID infra) of
       Inl e \<Rightarrow> (\<lparr>answer = Refused (handleErrorDataRead e), launched = []\<rparr>, w1)
     | Inr awsInt \<Rightarrow>
    (case GetAgentInClusterConfig app of
       Some e \<Rightarrow> (\<lparr>answer = Refused (handleErrorDataRead e), launched = []\<rparr>, w1)
     | None \<Rightarrow>
    (case ProvisionECR app (running w1) projID awsInt (ECRName form) of
       Some e \<Rightarrow> (\<lparr>answer = Refused (handleErrorInternal e),
                    launched = [(projID, awsInt, ECRName form)]\<rparr>, w1)
     | None \<Rightarrow>
         (\<lparr>answer = StatusCreated infra
                      (case Encode app infra of
                         None \<Rightarrow> None
                       | Some e \<Rightarrow> Some (handleErrorFormDecoding (Some e))),
           launched = [(projID, awsInt, ECRName form)]\<rparr>,
          w1\<lparr>running := running w1 @ [(projID, awsInt, ECRName form)]\<rparr>)))))))))))"

text \<open>
  \<^verbatim>\<open>HandleGetProvisioningLogs\<close>: the helpers called, in order, and the call of
  \<^verbatim>\<open>provisioner.ResourceStream\<close> with the stream name and the connection (\<open>None\<close> is the
  nil connection left by a failed upgrade, after which the handler does not return).
\<close>

definition streamName :: "string \<Rightarrow> string \<Rightarrow> string \<Rightarrow> string" where
  "streamName kind projectID infraID = kind @ ''-'' @ projectID @ ''-'' @ infraID"

record logs_result =
  reported :: "app_error list"
  attached :: "string \<times> conn option"

definition HandleGetProvisioningLogs :: "App \<Rightarrow> http_request \<Rightarrow> logs_result" where
  "HandleGetProvisioningLogs app r =
    (let kind = URLParam r ''kind'';
         projectID = URLParam r ''project_id'';
         infraID = URLParam r ''infra_id'';
         name = streamName kind projectID infraID;
         (errs, c) = (case Upgrade app r of
                        Inl e \<Rightarrow> ([handleErrorUpgradeWebsocket e], None)
                      | Inr c \<Rightarrow> ([], Some c)) in
     (case ResourceStream app name c of
        Some e \<Rightarrow> \<lparr>reported = errs @ [handleErrorWebsocketWrite e], attached = (name, c)\<rparr>
      | None \<Rightarrow> \<lparr>reported = errs, attached = (name, c)\<rparr>))"

subsection \<open>Concrete collaborators\<close>

text \<open>
  One enrolled repository with one preview Deployment in state Creating, a store and a
  pull-request system that answer every call, and a pull request in the given state.
\<close>

definition env0 :: Environment where
  "env0 = \<lparr>env_ID = 3, env_Name = ''staging'', GitRepoOwner = ''acme'', GitRepoName = ''shop''\<rparr>"

definition depl0 :: Deployment where
  "depl0 = \<lparr>depl_ID = 11, EnvironmentID = 3, Namespace = ''pr-7'',
            Status = DeploymentStatusCreating, Subdomain = ''old.example.com'',
            PullRequestID = 7, GHDeploymentID = 99, CommitSHA = ''abc123'',
            RepoOwner = ''acme'', RepoName = ''shop'', PRBranchFrom = ''feature''\<rparr>"

definition backend0 :: "string \<Rightarrow> backend" where
  "backend0 pr_state =
     \<lparr>ReadEnvironment = (\<lambda>p cl i owner name.
         if p = 1 \<and> cl = 2 \<and> i = 5 \<and> owner = ''acme'' \<and> name = ''shop''
         then Inr env0 else Inl ''record not found''),
      ReadDeployment = (\<lambda>e ns.
         if e = 3 \<and> ns = ''pr-7'' then Inr depl0 else Inl ''record not found''),
      UpdateDeployment = (\<lambda>d. None),
      getGithubClientFromEnvironment = (\<lambda>e. None),
      CreateDeploymentStatus = (\<lambda>owner name i q. None),
      PullRequests_Get = (\<lambda>owner name n. Inr \<lparr>State = Some pr_state\<rparr>),
      GetLatestWorkflowRun = (\<lambda>owner name file branch.
         Inr \<lparr>HTMLURL = Some ''https://github.com/acme/shop/actions/runs/1''\<rparr>),
      Issues_CreateComment = (\<lambda>owner name n body. None),
      ServerURL = ''https://dashboard.example.com''\<rparr>"

text \<open>
  The same collaborators with a pull-request system in which the named step fails with a
  transport error.
\<close>

definition failing :: "string \<Rightarrow> backend" where
  "failing step =
     (backend0 ''open'')
       \<lparr>CreateDeploymentStatus :=
          (\<lambda>owner name i q. if step = ''status'' then Some ''timeout'' else None),
        PullRequests_Get :=
          (\<lambda>owner name n. if step = ''pr'' then Inl ''timeout'' else Inr \<lparr>State = Some ''open''\<rparr>),
        GetLatestWorkflowRun :=
          (\<lambda>owner name file branch. if step = ''workflow'' then Inl ''timeout''
             else Inr \<lparr>HTMLURL = Some ''https://github.com/acme/shop/actions/runs/1''\<rparr>),
        Issues_CreateComment :=
          (\<lambda>owner name n body. if step = ''comment'' then Some ''timeout'' else None)\<rparr>"

definition request0 ::
  "string \<Rightarrow> string \<Rightarrow> string \<Rightarrow> SuccessfullyDeployedResource list \<Rightarrow> finalize_request"
where
  "request0 name ns sub rs =
     \<lparr>InstallationID = 5, project_ID = 1, cluster_ID = 2, cluster_Name = ''prod'',
      owner_and_name = Some (''acme'', name),
      decoded = Some \<lparr>req_Namespace = ns, req_Subdomain = sub, SuccessfulResources = rs\<rparr>\<rparr>"

text \<open>
  A stand-in for \<^verbatim>\<open>strconv.ParseUint(s, 0, 64)\<close> on decimal literals: a string of decimal
  digits without a leading zero is read in base ten and refused when it does not fit 64
  bits; a string with another character is refused. The prefixed literals of base 0 are
  not covered, and no request below carries one.
\<close>

definition digit_of :: "char \<Rightarrow> nat option" where
  "digit_of c =
     map_of [(CHR ''0'', 0), (CHR ''1'', 1), (CHR ''2'', 2), (CHR ''3'', 3), (CHR ''4'', 4),
             (CHR ''5'', 5), (CHR ''6'', 6), (CHR ''7'', 7), (CHR ''8'', 8), (CHR ''9'', 9)] c"

fun parse_decimal :: "nat \<Rightarrow> string \<Rightarrow> nat option" where
  "parse_decimal acc [] = Some acc"
| "parse_decimal acc (c # cs) =
     (case digit_of c of None \<Rightarrow> None | Some d \<Rightarrow> parse_decimal (10 * acc + d) cs)"

definition decimal_ParseUint :: "string \<Rightarrow> err + uint" where
  "decimal_ParseUint s =
     (if s = [] \<or> (hd s = CHR ''0'' \<and> tl s \<noteq> []) then Inl ''invalid syntax''
      else case parse_decimal 0 s of
             None \<Rightarrow> Inl ''invalid syntax''
           | Some n \<Rightarrow> if n < 2 ^ 64 then Inr (of_nat n) else Inl ''value out of range'')"

text \<open>
  The JSON body of a launch request for an ECR repository of the given name with the AWS
  integration 4; the double quote is the byte 0x22.
\<close>

definition ecr_body :: "string \<Rightarrow> string" where
  "ecr_body name =
     ''{'' @ [char_of (0x22 :: nat)] @ ''ecr_name'' @ [char_of (0x22 :: nat)] @ '':''
       @ [char_of (0x22 :: nat)] @ name @ [char_of (0x22 :: nat)] @ '',''
       @ [char_of (0x22 :: nat)] @ ''aws_integration_id'' @ [char_of (0x22 :: nat)] @ '':4}''"

text \<open>
  Two execution substrates: one accepts every job, the other refuses a job identical to
  one in flight.
\<close>

definition admit_all :: "job list \<Rightarrow> uint \<Rightarrow> AWSIntegration \<Rightarrow> string \<Rightarrow> err option" where
  "admit_all js p a n = None"

definition refuse_duplicates ::
  "job list \<Rightarrow> uint \<Rightarrow> AWSIntegration \<Rightarrow> string \<Rightarrow> err option"
where
  "refuse_duplicates js p a n = (if (p, a, n) \<in> set js then Some ''already exists'' else None)"

text \<open>
  An \<^verbatim>\<open>App\<close> on the given substrate whose other collaborators succeed: the decoder accepts
  the body of a request for the repository \<^verbatim>\<open>repo\<close> and refuses every other body. The world
  starts with no job in flight and with 7 as the next infra ID.
\<close>

definition app0 ::
  "(job list \<Rightarrow> uint \<Rightarrow> AWSIntegration \<Rightarrow> string \<Rightarrow> err option) \<Rightarrow> App"
where
  "app0 substrate =
     \<lparr>ParseUint = decimal_ParseUint,
      Decode = (\<lambda>body form. if body = ecr_body ''repo'' then Inr (form\<lparr>ECRName := ''repo''\<rparr>)
                             else Inl ''invalid character''),
      validator_Struct = (\<lambda>form. None),
      ToAWSInfra = (\<lambda>form. Inr \<lparr>infra_ID = 0, AWSIntegrationID = 4\<rparr>),
      CreateAWSInfra = (\<lambda>infra. None),
      ReadAWSIntegration = (\<lambda>i. Inr \<lparr>awsint_ID = i\<rparr>),
      GetAgentInClusterConfig = None,
      ProvisionECR = substrate,
      Encode = (\<lambda>infra. None),
      Upgrade = (\<lambda>r. Inr 1),
      ResourceStream = (\<lambda>name c. None)\<rparr>"

definition world0 :: world where
  "world0 = \<lparr>running = [], next_infra_ID = 7\<rparr>"

definition http0 :: "string \<Rightarrow> string \<Rightarrow> string \<Rightarrow> string \<Rightarrow> http_request" where
  "http0 kind project infra body =
     \<lparr>URLParam = (\<lambda>k. if k = ''kind'' then kind
                        else if k = ''project_id'' then project
                        else if k = ''infra_id'' then infra else []),
      Body = body\<rparr>"

text \<open>Four resources: one of kind \<^verbatim>\<open>job\<close> and three whose kind is not that string.\<close>

definition four_kinds :: "SuccessfullyDeployedResource list" where
  "four_kinds =
     [\<lparr>ReleaseName = ''worker'', ReleaseType = ''job''\<rparr>,
      \<lparr>ReleaseName = ''batch'', ReleaseType = ''Job''\<rparr>,
      \<lparr>ReleaseName = ''nightly'', ReleaseType = ''cronjob''\<rparr>,
      \<lparr>ReleaseName = ''web'', ReleaseType = []\<rparr>]"

text \<open>
  The comment text for the concrete Deployment, live URL \<^verbatim>\<open>foo.example.com\<close> and the single
  resource \<^verbatim>\<open>worker\<close> of kind \<^verbatim>\<open>job\<close>, and the one for the four resources, written out.
\<close>

definition comment_one_job :: string where
  "comment_one_job =
     ''## Porter Preview Environments\<newline>'' @ check_mark
      @ '' All changes deployed successfully\<newline>||Deployment Information|\<newline>|-|-|\<newline>''
      @ ''| Latest SHA | [`abc123`](https://github.com/acme/shop/commit/abc123) |\<newline>''
      @ ''| Live URL | foo.example.com |\<newline>''
      @ ''| Build Logs | https://github.com/acme/shop/actions/runs/1 |\<newline>''
      @ ''| Porter Deployments URL | https://dashboard.example.com/preview-environments/details/pr-7?environment_id=3 |''
      @ ''\<newline>#### Successfully deployed resources\<newline>''
      @ ''- [`worker`](https://dashboard.example.com/jobs/prod/pr-7/worker?project_id=1)\<newline>''"

definition comment_four_kinds :: string where
  "comment_four_kinds =
     ''## Porter Preview Environments\<newline>'' @ check_mark
      @ '' All changes deployed successfully\<newline>||Deployment Information|\<newline>|-|-|\<newline>''
      @ ''| Latest SHA | [`abc123`](https://github.com/acme/shop/commit/abc123) |\<newline>''
      @ ''| Live URL | foo.example.com |\<newline>''
      @ ''| Build Logs | https://github.com/acme/shop/actions/runs/1 |\<newline>''
      @ ''| Porter Deployments URL | https://dashboard.example.com/preview-environments/details/pr-7?environment_id=3 |''
      @ ''\<newline>#### Successfully deployed resources\<newline>''
      @ ''- [`worker`](https://dashboard.example.com/jobs/prod/pr-7/worker?project_id=1)\<newline>''
      @ ''- [`batch`](https://dashboard.example.com/applications/prod/pr-7/batch?project_id=1)\<newline>''
      @ ''- [`nightly`](https://dashboard.example.com/applications/prod/pr-7/nightly?project_id=1)\<newline>''
      @ ''- [`web`](https://dashboard.example.com/applications/prod/pr-7/web?project_id=1)\<newline>''"

text \<open>The number of places at which a text occurs in another.\<close>

fun occurrences :: "string \<Rightarrow> string \<Rightarrow> nat" where
  "occurrences pat [] = (if pat = [] then 1 else 0)"
| "occurrences pat (c # cs) =
     (if take (length pat) (c # cs) = pat then 1 else 0) + occurrences pat cs"

section \<open>Properties of the finalize handler\<close>

lemmas asm_splits = option.split_asm sum.split_asm prod.split_asm if_split_asm

lemmas fixture_defs = backend0_def request0_def env0_def depl0_def finish_def
  isGithubPRClosed_def GetState_def int_of_uint_def workflow_file_def render_ingress_def

lemma render_ingress_simps:
  "depl_ID (render_ingress d) = depl_ID d"
  "EnvironmentID (render_ingress d) = EnvironmentID d"
  "Namespace (render_ingress d) = Namespace d"
  "Status (render_ingress d) = Status d"
  "PullRequestID (render_ingress d) = PullRequestID d"
  "GHDeploymentID (render_ingress d) = GHDeploymentID d"
  "CommitSHA (render_ingress d) = CommitSHA d"
  "RepoOwner (render_ingress d) = RepoOwner d"
  "RepoName (render_ingress d) = RepoName d"
  "PRBranchFrom (render_ingress d) = PRBranchFrom d"
  "Subdomain (render_ingress d) = (if Subdomain d = [] then ingress_disabled else Subdomain d)"
  by (simp_all add: render_ingress_def)

subsection \<open>Runs of the handler on the concrete collaborators\<close>

lemma run_closed:
  "ServeHTTP (backend0 ''closed'') (request0 ''shop'' ''pr-7'' ''foo.example.com'' []) =
     \<lparr>outcome = Failed (NewErrPassThroughToClient ''Github PR has been closed'' StatusConflict),
      saved = Some (depl0\<lparr>Subdomain := ''foo.example.com'', Status := DeploymentStatusCreated\<rparr>),
      calls = [CreateDeploymentStatusCall ''acme'' ''shop'' 99
                 \<lparr>dsr_State = ''success'', EnvironmentURL = ''foo.example.com''\<rparr>,
               PullRequestsGetCall ''acme'' ''shop'' 7]\<rparr>"
  by (simp add: ServeHTTP_def fixture_defs)

lemma run_unknown_repo:
  "ServeHTTP (backend0 ''open'') (request0 ''blog'' ''pr-7'' ''foo.example.com'' []) =
     finish (Failed (NewErrInternal ''record not found'')) None []"
  by (simp add: ServeHTTP_def fixture_defs)

lemma run_unknown_namespace:
  "ServeHTTP (backend0 ''open'') (request0 ''shop'' ''pr-8'' ''foo.example.com'' []) =
     finish (Failed (NewErrInternal ''record not found'')) None []"
  by (simp add: ServeHTTP_def fixture_defs)

lemma run_open:
  "ServeHTTP (backend0 ''open'') (request0 ''shop'' ''pr-7'' ''foo.example.com'' rs) =
     \<lparr>outcome = Written (depl0\<lparr>Subdomain := ''foo.example.com'', Status := DeploymentStatusCreated\<rparr>),
      saved = Some (depl0\<lparr>Subdomain := ''foo.example.com'', Status := DeploymentStatusCreated\<rparr>),
      calls = [CreateDeploymentStatusCall ''acme'' ''shop'' 99
                 \<lparr>dsr_State = ''success'', EnvironmentURL = ''foo.example.com''\<rparr>,
               PullRequestsGetCall ''acme'' ''shop'' 7,
               GetLatestWorkflowRunCall ''acme'' ''shop'' ''porter_staging_env.yml'' ''feature'',
               CreateCommentCall ''acme'' ''shop'' 7
                 (commentBody ''https://dashboard.example.com'' ''prod'' 1
                    (depl0\<lparr>Subdomain := ''foo.example.com'', Status := DeploymentStatusCreated\<rparr>)
                    ''https://github.com/acme/shop/actions/runs/1'' rs)]\<rparr>"
  by (simp add: ServeHTTP_def fixture_defs GetHTMLURL_def Let_def)

lemma run_open_no_ingress:
  "ServeHTTP (backend0 ''open'') (request0 ''shop'' ''pr-7'' [] rs) =
     \<lparr>outcome = Written (depl0\<lparr>Subdomain := ingress_disabled, Status := DeploymentStatusCreated\<rparr>),
      saved = Some (depl0\<lparr>Subdomain := [], Status := DeploymentStatusCreated\<rparr>),
      calls = [CreateDeploymentStatusCall ''acme'' ''shop'' 99
                 \<lparr>dsr_State = ''success'', EnvironmentURL = []\<rparr>,
               PullRequestsGetCall ''acme'' ''shop'' 7,
               GetLatestWorkflowRunCall ''acme'' ''shop'' ''porter_staging_env.yml'' ''feature'',
               CreateCommentCall ''acme'' ''shop'' 7
                 (commentBody ''https://dashboard.example.com'' ''prod'' 1
                    (depl0\<lparr>Subdomain := ingress_disabled, Status := DeploymentStatusCreated\<rparr>)
                    ''https://github.com/acme/shop/actions/runs/1'' rs)]\<rparr>"
  by (simp add: ServeHTTP_def fixture_defs GetHTMLURL_def Let_def)

lemma run_failing_status:
  "ServeHTTP (failing ''status'') (request0 ''shop'' ''pr-7'' ''foo.example.com'' []) =
     \<lparr>outcome = Failed (NewErrInternal ''timeout''),
      saved = Some (depl0\<lparr>Subdomain := ''foo.example.com'', Status := DeploymentStatusCreated\<rparr>),
      calls = [CreateDeploymentStatusCall ''acme'' ''shop'' 99
                 \<lparr>dsr_State = ''success'', EnvironmentURL = ''foo.example.com''\<rparr>]\<rparr>"
  by (simp add: ServeHTTP_def failing_def fixture_defs GetHTMLURL_def Let_def)

lemma run_failing_pr:
  "ServeHTTP (failing ''pr'') (request0 ''shop'' ''pr-7'' ''foo.example.com'' []) =
     \<lparr>outcome = Failed (NewErrPassThroughToClient
         ''error fetching details of github PR for deployment ID: 11. Error: timeout''
         StatusConflict),
      saved = Some (depl0\<lparr>Subdomain := ''foo.example.com'', Status := DeploymentStatusCreated\<rparr>),
      calls = [CreateDeploymentStatusCall ''acme'' ''shop'' 99
                 \<lparr>dsr_State = ''success'', EnvironmentURL = ''foo.example.com''\<rparr>,
               PullRequestsGetCall ''acme'' ''shop'' 7]\<rparr>"
  by (simp add: ServeHTTP_def failing_def fixture_defs GetHTMLURL_def Let_def
        pr_fetch_error_def fmt_uint_def decimal.simps digit_def)

lemma run_failing_workflow:
  "ServeHTTP (failing ''workflow'') (request0 ''shop'' ''pr-7'' ''foo.example.com'' []) =
     \<lparr>outcome = Failed (NewErrInternal ''timeout''),
      saved = Some (depl0\<lparr>Subdomain := ''foo.example.com'', Status := DeploymentStatusCreated\<rparr>),
      calls = [CreateDeploymentStatusCall ''acme'' ''shop'' 99
                 \<lparr>dsr_State = ''success'', EnvironmentURL = ''foo.example.com''\<rparr>,
               PullRequestsGetCall ''acme'' ''shop'' 7,
               GetLatestWorkflowRunCall ''acme'' ''shop'' ''porter_staging_env.yml'' ''feature'']\<rparr>"
  by (simp add: ServeHTTP_def failing_def fixture_defs GetHTMLURL_def Let_def)

lemma run_failing_comment:
  "ServeHTTP (failing ''comment'') (request0 ''shop'' ''pr-7'' ''foo.example.com'' []) =
     \<lparr>outcome = Failed (NewErrInternal ''timeout''),
      saved = Some (depl0\<lparr>Subdomain := ''foo.example.com'', Status := DeploymentStatusCreated\<rparr>),
      calls = [CreateDeploymentStatusCall ''acme'' ''shop'' 99
                 \<lparr>dsr_State = ''success'', EnvironmentURL = ''foo.example.com''\<rparr>,
               PullRequestsGetCall ''acme'' ''shop'' 7,
               GetLatestWorkflowRunCall ''acme'' ''shop'' ''porter_staging_env.yml'' ''feature'',
               CreateCommentCall ''acme'' ''shop'' 7
                 (commentBody ''https://dashboard.example.com'' ''prod'' 1
                    (depl0\<lparr>Subdomain := ''foo.example.com'', Status := DeploymentStatusCreated\<rparr>)
                    ''https://github.com/acme/shop/actions/runs/1'' [])]\<rparr>"
  by (simp add: ServeHTTP_def failing_def fixture_defs GetHTMLURL_def Let_def)

lemma failing_answers:
  "CreateDeploymentStatus (failing ''status'') ow nm i q = Some ''timeout''"
  "PullRequests_Get (failing ''pr'') ow nm p = Inl ''timeout''"
  "GetLatestWorkflowRun (failing ''workflow'') ow nm f br = Inl ''timeout''"
  "Issues_CreateComment (failing ''comment'') ow nm p body = Some ''timeout''"
  by (simp_all add: failing_def)

subsection \<open>Finalize on a closed pull request\<close>

text \<open>
  C1, as the claim states it, fails: the handler writes the Deployment row before it asks
  for the state of the pull request. On the concrete collaborators the pull request is
  closed and the row read has status Creating, yet the row written has status Created.
\<close>

theorem finalize_closed_pr_counterexample:
  "isGithubPRClosed (backend0 ''closed'') ''acme'' ''shop'' 7 = Inr True
   \<and> ReadDeployment (backend0 ''closed'') 3 ''pr-7'' = Inr depl0
   \<and> Status depl0 = DeploymentStatusCreating
   \<and> map_option Status
        (saved (ServeHTTP (backend0 ''closed'') (request0 ''shop'' ''pr-7'' ''foo.example.com'' [])))
       = Some DeploymentStatusCreated"
  by (simp add: run_closed) (simp add: fixture_defs)

text \<open>
  C1, amended: whenever the handler asks for the pull request and the answer is closed, it
  ends with the pass-through error "Github PR has been closed" of status Conflict, never
  with a written result, and posts no comment; the Deployment row has by then been written
  in full, with the subdomain of the request and status Created.
\<close>

theorem finalize_closed_pr_conflict:
  assumes "PullRequestsGetCall owner name n \<in> set (calls (ServeHTTP c r))"
      and "isGithubPRClosed c owner name n = Inr True"
  shows "outcome (ServeHTTP c r) =
           Failed (NewErrPassThroughToClient ''Github PR has been closed'' StatusConflict)
       \<and> class_of (NewErrPassThroughToClient ''Github PR has been closed'' StatusConflict) = Conflict
       \<and> (\<exists>env request depl.
             decoded r = Some request
           \<and> ReadEnvironment c (project_ID r) (cluster_ID r) (InstallationID r) owner name = Inr env
           \<and> ReadDeployment c (env_ID env) (req_Namespace request) = Inr depl
           \<and> saved (ServeHTTP c r) =
               Some (depl\<lparr>Subdomain := req_Subdomain request, Status := DeploymentStatusCreated\<rparr>))
       \<and> (\<forall>ow nm p body. CreateCommentCall ow nm p body \<notin> set (calls (ServeHTTP c r)))"
  using assms unfolding ServeHTTP_def finish_def Let_def
  by (fastforce simp: class_of_def StatusConflict_def StatusNotFound_def split: asm_splits)

theorem finalize_closed_pr_conflict_witness:
  "PullRequestsGetCall ''acme'' ''shop'' 7
     \<in> set (calls (ServeHTTP (backend0 ''closed'') (request0 ''shop'' ''pr-7'' ''foo.example.com'' [])))
   \<and> isGithubPRClosed (backend0 ''closed'') ''acme'' ''shop'' 7 = Inr True
   \<and> outcome (ServeHTTP (backend0 ''closed'') (request0 ''shop'' ''pr-7'' ''foo.example.com'' [])) =
       Failed (NewErrPassThroughToClient ''Github PR has been closed'' StatusConflict)
   \<and> (\<forall>ow nm p body. CreateCommentCall ow nm p body
        \<notin> set (calls (ServeHTTP (backend0 ''closed'') (request0 ''shop'' ''pr-7'' ''foo.example.com'' []))))"
proof -
  have h1: "PullRequestsGetCall ''acme'' ''shop'' 7
     \<in> set (calls (ServeHTTP (backend0 ''closed'') (request0 ''shop'' ''pr-7'' ''foo.example.com'' [])))"
    by (simp add: run_closed)
  have h2: "isGithubPRClosed (backend0 ''closed'') ''acme'' ''shop'' 7 = Inr True"
    by (simp add: fixture_defs)
  from finalize_closed_pr_conflict [OF h1 h2] h1 h2 show ?thesis by blast
qed

subsection \<open>Environment or Deployment not resolved\<close>

text \<open>
  C4, as the claim states it, fails: an Environment or a Deployment that the store does
  not find ends the handler with \<^verbatim>\<open>NewErrInternal\<close>, whose class is Internal, not NotFound.
\<close>

theorem finalize_unresolved_counterexample:
  "ReadEnvironment (backend0 ''open'') 1 2 5 ''acme'' ''blog'' = Inl ''record not found''
   \<and> outcome (ServeHTTP (backend0 ''open'') (request0 ''blog'' ''pr-7'' ''foo.example.com'' []))
       = Failed (NewErrInternal ''record not found'')
   \<and> class_of (NewErrInternal ''record not found'') \<noteq> NotFound
   \<and> ReadDeployment (backend0 ''open'') 3 ''pr-8'' = Inl ''record not found''
   \<and> outcome (ServeHTTP (backend0 ''open'') (request0 ''shop'' ''pr-8'' ''foo.example.com'' []))
       = Failed (NewErrInternal ''record not found'')"
  by (simp add: run_unknown_repo run_unknown_namespace class_of_def) (simp add: fixture_defs)

text \<open>
  C4, amended: when the Environment or the Deployment cannot be read, the handler ends
  with the Internal-class error that wraps the store's error; nothing is written and the
  pull-request system is not called.
\<close>

theorem finalize_unresolved_is_internal:
  assumes "owner_and_name r = Some (owner, name)" and "decoded r = Some request"
      and "ReadEnvironment c (project_ID r) (cluster_ID r) (InstallationID r) owner name = Inl e
           \<or> (\<exists>env. ReadEnvironment c (project_ID r) (cluster_ID r) (InstallationID r) owner name
                       = Inr env
                   \<and> ReadDeployment c (env_ID env) (req_Namespace request) = Inl e)"
  shows "ServeHTTP c r = finish (Failed (NewErrInternal e)) None []
       \<and> class_of (NewErrInternal e) = Internal"
  using assms by (auto simp: ServeHTTP_def class_of_def)

theorem finalize_unresolved_is_internal_witness:
  "ServeHTTP (backend0 ''open'') (request0 ''blog'' ''pr-7'' ''foo.example.com'' []) =
     finish (Failed (NewErrInternal ''record not found'')) None []
   \<and> ServeHTTP (backend0 ''open'') (request0 ''shop'' ''pr-8'' ''foo.example.com'' []) =
     finish (Failed (NewErrInternal ''record not found'')) None []
   \<and> class_of (NewErrInternal ''record not found'') = Internal"
proof -
  have a: "ServeHTTP (backend0 ''open'') (request0 ''blog'' ''pr-7'' ''foo.example.com'' []) =
     finish (Failed (NewErrInternal ''record not found'')) None []
     \<and> class_of (NewErrInternal ''record not found'') = Internal"
    by (rule finalize_unresolved_is_internal [where owner = "''acme''" and name = "''blog''"
          and request = "\<lparr>req_Namespace = ''pr-7'', req_Subdomain = ''foo.example.com'',
                          SuccessfulResources = []\<rparr>"])
       (simp_all add: fixture_defs)
  have b: "ServeHTTP (backend0 ''open'') (request0 ''shop'' ''pr-8'' ''foo.example.com'' []) =
     finish (Failed (NewErrInternal ''record not found'')) None []
     \<and> class_of (NewErrInternal ''record not found'') = Internal"
    by (rule finalize_unresolved_is_internal [where owner = "''acme''" and name = "''shop''"
          and request = "\<lparr>req_Namespace = ''pr-8'', req_Subdomain = ''foo.example.com'',
                          SuccessfulResources = []\<rparr>"])
       (simp_all add: fixture_defs)
  from a b show ?thesis by simp
qed

subsection \<open>The row written by finalize\<close>

text \<open>
  C9: the row that finalize writes is the row it read with the subdomain replaced by the
  request's and the status set to Created; the ID, the environment ID, the namespace, the
  commit SHA, the branch, the pull-request number, the repo owner and name and
  \<^verbatim>\<open>GHDeploymentID\<close> are those of the row read.
\<close>

theorem finalize_update_frame:
  assumes "saved (ServeHTTP c r) = Some row"
  shows "\<exists>owner name request env depl.
           owner_and_name r = Some (owner, name) \<and> decoded r = Some request
         \<and> ReadEnvironment c (project_ID r) (cluster_ID r) (InstallationID r) owner name = Inr env
         \<and> ReadDeployment c (env_ID env) (req_Namespace request) = Inr depl
         \<and> row = depl\<lparr>Subdomain := req_Subdomain request, Status := DeploymentStatusCreated\<rparr>
         \<and> depl_ID row = depl_ID depl \<and> EnvironmentID row = EnvironmentID depl
         \<and> Namespace row = Namespace depl \<and> CommitSHA row = CommitSHA depl
         \<and> PRBranchFrom row = PRBranchFrom depl \<and> PullRequestID row = PullRequestID depl
         \<and> RepoOwner row = RepoOwner depl \<and> RepoName row = RepoName depl
         \<and> GHDeploymentID row = GHDeploymentID depl"
  using assms unfolding ServeHTTP_def finish_def Let_def
  by (fastforce split: asm_splits)

theorem finalize_update_frame_witness:
  "saved (ServeHTTP (backend0 ''open'') (request0 ''shop'' ''pr-7'' ''foo.example.com'' [])) =
     Some (depl0\<lparr>Subdomain := ''foo.example.com'', Status := DeploymentStatusCreated\<rparr>)
   \<and> (\<exists>depl. ReadDeployment (backend0 ''open'') 3 ''pr-7'' = Inr depl
         \<and> depl0\<lparr>Subdomain := ''foo.example.com'', Status := DeploymentStatusCreated\<rparr>
             = depl\<lparr>Subdomain := ''foo.example.com'', Status := DeploymentStatusCreated\<rparr>
         \<and> GHDeploymentID (depl0\<lparr>Subdomain := ''foo.example.com'', Status := DeploymentStatusCreated\<rparr>)
             = GHDeploymentID depl)"
proof -
  have h: "saved (ServeHTTP (backend0 ''open'') (request0 ''shop'' ''pr-7'' ''foo.example.com'' [])) =
     Some (depl0\<lparr>Subdomain := ''foo.example.com'', Status := DeploymentStatusCreated\<rparr>)"
    by (simp add: run_open)
  from finalize_update_frame [OF h] h show ?thesis
    by (simp add: fixture_defs)
qed

subsection \<open>The workflow-run lookup\<close>

lemma workflow_call_arguments:
  assumes "GetLatestWorkflowRunCall owner repo file branch \<in> set (calls (ServeHTTP c r))"
  shows "\<exists>ow nm request env depl.
           owner_and_name r = Some (ow, nm) \<and> decoded r = Some request
         \<and> ReadEnvironment c (project_ID r) (cluster_ID r) (InstallationID r) ow nm = Inr env
         \<and> ReadDeployment c (env_ID env) (req_Namespace request) = Inr depl
         \<and> file = ''porter'' @ ''_'' @ env_Name env @ ''_env'' @ ''.yml''
         \<and> branch = PRBranchFrom depl \<and> owner = RepoOwner depl \<and> repo = RepoName depl"
  using assms unfolding ServeHTTP_def finish_def Let_def
  by (fastforce simp: workflow_file_def split: asm_splits)

lemma written_made_workflow_call:
  assumes "outcome (ServeHTTP c r) = Written d"
  shows "\<exists>ow nm env.
           owner_and_name r = Some (ow, nm)
         \<and> ReadEnvironment c (project_ID r) (cluster_ID r) (InstallationID r) ow nm = Inr env
         \<and> GetLatestWorkflowRunCall (RepoOwner d) (RepoName d)
              (''porter'' @ ''_'' @ env_Name env @ ''_env'' @ ''.yml'') (PRBranchFrom d)
             \<in> set (calls (ServeHTTP c r))"
  using assms unfolding ServeHTTP_def finish_def Let_def
  by (fastforce simp: workflow_file_def render_ingress_simps split: asm_splits)

text \<open>
  C8: every call of \<^verbatim>\<open>GetLatestWorkflowRun\<close> names the workflow by the prefix
  \<^verbatim>\<open>porter\<close>, an underscore, the name of the Deployment's Environment and \<^verbatim>\<open>_env\<close>, carried
  by the file extension \<^verbatim>\<open>.yml\<close>, in the repository recorded on the Deployment and on the
  Deployment's source branch; and every finalize that ends with a written result has made
  that call. That the run found is the most recent one is the contract of
  \<^verbatim>\<open>GetLatestWorkflowRun\<close>.
\<close>

theorem workflow_lookup_pattern:
  "(GetLatestWorkflowRunCall owner repo file branch \<in> set (calls (ServeHTTP c r)) \<longrightarrow>
      (\<exists>ow nm request env depl.
           owner_and_name r = Some (ow, nm) \<and> decoded r = Some request
         \<and> ReadEnvironment c (project_ID r) (cluster_ID r) (InstallationID r) ow nm = Inr env
         \<and> ReadDeployment c (env_ID env) (req_Namespace request) = Inr depl
         \<and> file = ''porter'' @ ''_'' @ env_Name env @ ''_env'' @ ''.yml''
         \<and> branch = PRBranchFrom depl \<and> owner = RepoOwner depl \<and> repo = RepoName depl))
   \<and> (outcome (ServeHTTP c r) = Written d \<longrightarrow>
      (\<exists>ow nm env.
           owner_and_name r = Some (ow, nm)
         \<and> ReadEnvironment c (project_ID r) (cluster_ID r) (InstallationID r) ow nm = Inr env
         \<and> GetLatestWorkflowRunCall (RepoOwner d) (RepoName d)
              (''porter'' @ ''_'' @ env_Name env @ ''_env'' @ ''.yml'') (PRBranchFrom d)
             \<in> set (calls (ServeHTTP c r))))"
  using workflow_call_arguments written_made_workflow_call by blast

theorem workflow_lookup_pattern_witness:
  "GetLatestWorkflowRunCall ''acme'' ''shop'' ''porter_staging_env.yml'' ''feature''
     \<in> set (calls (ServeHTTP (backend0 ''open'') (request0 ''shop'' ''pr-7'' ''foo.example.com'' [])))
   \<and> outcome (ServeHTTP (backend0 ''open'') (request0 ''shop'' ''pr-7'' ''foo.example.com'' []))
       = Written (depl0\<lparr>Subdomain := ''foo.example.com'', Status := DeploymentStatusCreated\<rparr>)
   \<and> (\<exists>env depl. ReadEnvironment (backend0 ''open'') 1 2 5 ''acme'' ''shop'' = Inr env
         \<and> ReadDeployment (backend0 ''open'') (env_ID env) ''pr-7'' = Inr depl
         \<and> ''porter_staging_env.yml'' = ''porter'' @ ''_'' @ env_Name env @ ''_env'' @ ''.yml''
         \<and> ''feature'' = PRBranchFrom depl)"
proof -
  have h1: "GetLatestWorkflowRunCall ''acme'' ''shop'' ''porter_staging_env.yml'' ''feature''
     \<in> set (calls (ServeHTTP (backend0 ''open'') (request0 ''shop'' ''pr-7'' ''foo.example.com'' [])))"
    by (simp add: run_open)
  have h2: "outcome (ServeHTTP (backend0 ''open'') (request0 ''shop'' ''pr-7'' ''foo.example.com'' []))
       = Written (depl0\<lparr>Subdomain := ''foo.example.com'', Status := DeploymentStatusCreated\<rparr>)"
    by (simp add: run_open)
  from workflow_lookup_pattern
         [of "''acme''" "''shop''" "''porter_staging_env.yml''" "''feature''"
             "backend0 ''open''" "request0 ''shop'' ''pr-7'' ''foo.example.com'' []"
             "depl0\<lparr>Subdomain := ''foo.example.com'', Status := DeploymentStatusCreated\<rparr>"]
       h1 h2
  show ?thesis by (simp add: fixture_defs)
qed

subsection \<open>Errors of the notification steps\<close>

lemma status_step_error:
  assumes "CreateDeploymentStatusCall ow nm i q \<in> set (calls (ServeHTTP c r))"
      and "CreateDeploymentStatus c ow nm i q = Some e"
  shows "outcome (ServeHTTP c r) = Failed (NewErrInternal e)
       \<and> (\<forall>ow' nm' p body. CreateCommentCall ow' nm' p body \<notin> set (calls (ServeHTTP c r)))"
  using assms unfolding ServeHTTP_def finish_def Let_def
  by (fastforce split: asm_splits)

lemma pr_step_error:
  assumes "PullRequestsGetCall ow nm p \<in> set (calls (ServeHTTP c r))"
      and "PullRequests_Get c ow nm p = Inl e"
  shows "(\<exists>depl. outcome (ServeHTTP c r) =
            Failed (NewErrPassThroughToClient (pr_fetch_error depl e) StatusConflict))
       \<and> (\<forall>ow' nm' p' body. CreateCommentCall ow' nm' p' body \<notin> set (calls (ServeHTTP c r)))"
  using assms unfolding ServeHTTP_def finish_def Let_def isGithubPRClosed_def
  by (fastforce split: asm_splits)

lemma workflow_step_error:
  assumes "GetLatestWorkflowRunCall ow nm f br \<in> set (calls (ServeHTTP c r))"
      and "GetLatestWorkflowRun c ow nm f br = Inl e"
  shows "outcome (ServeHTTP c r) = Failed (NewErrInternal e)
       \<and> (\<forall>ow' nm' p body. CreateCommentCall ow' nm' p body \<notin> set (calls (ServeHTTP c r)))"
  using assms unfolding ServeHTTP_def finish_def Let_def
  by (fastforce split: asm_splits)

lemma comment_step_error:
  assumes "CreateCommentCall ow nm p body \<in> set (calls (ServeHTTP c r))"
      and "Issues_CreateComment c ow nm p body = Some e"
  shows "outcome (ServeHTTP c r) = Failed (NewErrInternal e)"
  using assms unfolding ServeHTTP_def finish_def Let_def
  by (fastforce split: asm_splits)

text \<open>
  C3, as the claim states it, fails at the pull-request state query: a transport error of
  that step ends the handler with a pass-through error of status Conflict, whose class is
  Conflict, not Internal.
\<close>

theorem reporter_step_errors_counterexample:
  "PullRequests_Get (failing ''pr'') ''acme'' ''shop'' 7 = Inl ''timeout''
   \<and> outcome (ServeHTTP (failing ''pr'') (request0 ''shop'' ''pr-7'' ''foo.example.com'' [])) =
       Failed (NewErrPassThroughToClient
         ''error fetching details of github PR for deployment ID: 11. Error: timeout''
         StatusConflict)
   \<and> class_of (NewErrPassThroughToClient
         ''error fetching details of github PR for deployment ID: 11. Error: timeout''
         StatusConflict) \<noteq> Internal"
  by (simp add: run_failing_pr failing_answers class_of_def StatusConflict_def StatusNotFound_def)

text \<open>
  C3, amended: a transport error of the status-check update, of the workflow-run lookup or
  of the comment creation ends the handler with the Internal-class error that wraps it; a
  transport error of the pull-request state query ends it with a Conflict-class
  pass-through error that quotes it. In each case the handler ends with an error, and
  after a failure of one of the first three steps no comment is posted.
\<close>

theorem reporter_step_errors:
  "(CreateDeploymentStatusCall ow nm i q \<in> set (calls (ServeHTTP c r))
      \<and> CreateDeploymentStatus c ow nm i q = Some e \<longrightarrow>
        outcome (ServeHTTP c r) = Failed (NewErrInternal e)
      \<and> class_of (NewErrInternal e) = Internal
      \<and> (\<forall>ow' nm' p' body'. CreateCommentCall ow' nm' p' body' \<notin> set (calls (ServeHTTP c r))))
   \<and> (PullRequestsGetCall ow nm p \<in> set (calls (ServeHTTP c r))
      \<and> PullRequests_Get c ow nm p = Inl e \<longrightarrow>
        (\<exists>depl. outcome (ServeHTTP c r) =
            Failed (NewErrPassThroughToClient (pr_fetch_error depl e) StatusConflict)
          \<and> class_of (NewErrPassThroughToClient (pr_fetch_error depl e) StatusConflict) = Conflict)
      \<and> (\<forall>ow' nm' p' body'. CreateCommentCall ow' nm' p' body' \<notin> set (calls (ServeHTTP c r))))
   \<and> (GetLatestWorkflowRunCall ow nm f br \<in> set (calls (ServeHTTP c r))
      \<and> GetLatestWorkflowRun c ow nm f br = Inl e \<longrightarrow>
        outcome (ServeHTTP c r) = Failed (NewErrInternal e)
      \<and> class_of (NewErrInternal e) = Internal
      \<and> (\<forall>ow' nm' p' body'. CreateCommentCall ow' nm' p' body' \<notin> set (calls (ServeHTTP c r))))
   \<and> (CreateCommentCall ow nm p body \<in> set (calls (ServeHTTP c r))
      \<and> Issues_CreateComment c ow nm p body = Some e \<longrightarrow>
        outcome (ServeHTTP c r) = Failed (NewErrInternal e)
      \<and> class_of (NewErrInternal e) = Internal)"
proof -
  have cls: "class_of (NewErrInternal e) = Internal"
    and cls': "\<And>m. class_of (NewErrPassThroughToClient m StatusConflict) = Conflict"
    by (simp_all add: class_of_def StatusConflict_def StatusNotFound_def)
  show ?thesis
    using status_step_error [of ow nm i q c r e] pr_step_error [of ow nm p c r e]
      workflow_step_error [of ow nm f br c r e] comment_step_error [of ow nm p body c r e]
      cls cls'
    by blast
qed

theorem reporter_step_errors_witness:
  "outcome (ServeHTTP (failing ''status'') (request0 ''shop'' ''pr-7'' ''foo.example.com'' []))
     = Failed (NewErrInternal ''timeout'')
   \<and> (\<exists>depl. outcome (ServeHTTP (failing ''pr'') (request0 ''shop'' ''pr-7'' ''foo.example.com'' []))
         = Failed (NewErrPassThroughToClient (pr_fetch_error depl ''timeout'') StatusConflict))
   \<and> outcome (ServeHTTP (failing ''workflow'') (request0 ''shop'' ''pr-7'' ''foo.example.com'' []))
     = Failed (NewErrInternal ''timeout'')
   \<and> outcome (ServeHTTP (failing ''comment'') (request0 ''shop'' ''pr-7'' ''foo.example.com'' []))
     = Failed (NewErrInternal ''timeout'')"
proof -
  let ?r = "request0 ''shop'' ''pr-7'' ''foo.example.com'' []"
  let ?q = "\<lparr>dsr_State = ''success'', EnvironmentURL = ''foo.example.com''\<rparr>"
  let ?body = "commentBody ''https://dashboard.example.com'' ''prod'' 1
                 (depl0\<lparr>Subdomain := ''foo.example.com'', Status := DeploymentStatusCreated\<rparr>)
                 ''https://github.com/acme/shop/actions/runs/1'' []"
  have s: "CreateDeploymentStatusCall ''acme'' ''shop'' 99 ?q
             \<in> set (calls (ServeHTTP (failing ''status'') ?r))
           \<and> CreateDeploymentStatus (failing ''status'') ''acme'' ''shop'' 99 ?q = Some ''timeout''"
    by (simp add: run_failing_status failing_answers)
  have p: "PullRequestsGetCall ''acme'' ''shop'' 7 \<in> set (calls (ServeHTTP (failing ''pr'') ?r))
           \<and> PullRequests_Get (failing ''pr'') ''acme'' ''shop'' 7 = Inl ''timeout''"
    by (simp add: run_failing_pr failing_answers)
  have w: "GetLatestWorkflowRunCall ''acme'' ''shop'' ''porter_staging_env.yml'' ''feature''
             \<in> set (calls (ServeHTTP (failing ''workflow'') ?r))
           \<and> GetLatestWorkflowRun (failing ''workflow'') ''acme'' ''shop''
                ''porter_staging_env.yml'' ''feature'' = Inl ''timeout''"
    by (simp add: run_failing_workflow failing_answers)
  have c: "CreateCommentCall ''acme'' ''shop'' 7 ?body
             \<in> set (calls (ServeHTTP (failing ''comment'') ?r))
           \<and> Issues_CreateComment (failing ''comment'') ''acme'' ''shop'' 7 ?body = Some ''timeout''"
    by (simp add: run_failing_comment failing_answers)
  note t1 = reporter_step_errors [where c = "failing ''status''" and r = ?r, THEN conjunct1,
              THEN mp, OF s]
  note t2 = reporter_step_errors [where c = "failing ''pr''" and r = ?r, THEN conjunct2,
              THEN conjunct1, THEN mp, OF p]
  note t3 = reporter_step_errors [where c = "failing ''workflow''" and r = ?r, THEN conjunct2,
              THEN conjunct2, THEN conjunct1, THEN mp, OF w]
  note t4 = reporter_step_errors [where c = "failing ''comment''" and r = ?r, THEN conjunct2,
              THEN conjunct2, THEN conjunct2, THEN mp, OF c]
  from t1 t2 t3 t4 show ?thesis by blast
qed

subsection \<open>Rendering of an empty subdomain\<close>

lemma append_resources_concat:
  "append_resources S cl ns pid acc rs =
     acc @ concat (map (\<lambda>res. if ReleaseType res = ''job''
                                then job_link S cl ns pid (ReleaseName res)
                                else application_link S cl ns pid (ReleaseName res)) rs)"
  by (induction rs arbitrary: acc) simp_all

lemma commentBody_table:
  "\<exists>rest. commentBody S cl pid d url rs = comment_table S d url @ rest"
  by (simp add: commentBody_def append_resources_concat Let_def)

lemma comment_table_live_url:
  "\<exists>pre post. comment_table S d url = pre @ ''| Live URL | '' @ Subdomain d @ '' |'' @ post"
proof -
  have "comment_table S d url =
      (''## Porter Preview Environments\<newline>''
       @ check_mark @ '' All changes deployed successfully\<newline>''
       @ ''||Deployment Information|\<newline>''
       @ ''|-|-|\<newline>''
       @ ''| Latest SHA | '' @ commit_link d @ '' |\<newline>'')
      @ ''| Live URL | '' @ Subdomain d @ '' |''
      @ (''\<newline>| Build Logs | '' @ url @ '' |\<newline>''
         @ ''| Porter Deployments URL | '' @ S @ ''/preview-environments/details/''
         @ Namespace d @ ''?environment_id='' @ fmt_uint (EnvironmentID d) @ '' |'')"
    by (simp add: comment_table_def)
  then show ?thesis by blast
qed

lemma comment_table_commit_link:
  "\<exists>pre post. comment_table S d url = pre @ commit_link d @ post"
proof -
  have "comment_table S d url =
      (''## Porter Preview Environments\<newline>''
       @ check_mark @ '' All changes deployed successfully\<newline>''
       @ ''||Deployment Information|\<newline>''
       @ ''|-|-|\<newline>''
       @ ''| Latest SHA | '') @ commit_link d
      @ ('' |\<newline>'' @ ''| Live URL | '' @ Subdomain d @ '' |\<newline>''
         @ ''| Build Logs | '' @ url @ '' |\<newline>''
         @ ''| Porter Deployments URL | '' @ S @ ''/preview-environments/details/''
         @ Namespace d @ ''?environment_id='' @ fmt_uint (EnvironmentID d) @ '' |'')"
    by (simp add: comment_table_def)
  then show ?thesis by blast
qed

lemma commentBody_live_url:
  "\<exists>pre post. commentBody S cl pid d url rs = pre @ ''| Live URL | '' @ Subdomain d @ '' |'' @ post"
proof -
  obtain rest where a: "commentBody S cl pid d url rs = comment_table S d url @ rest"
    using commentBody_table by blast
  obtain pre post where b: "comment_table S d url = pre @ ''| Live URL | '' @ Subdomain d @ '' |'' @ post"
    using comment_table_live_url by blast
  have "commentBody S cl pid d url rs = pre @ ''| Live URL | '' @ Subdomain d @ '' |'' @ (post @ rest)"
    by (simp add: a b)
  then show ?thesis by blast
qed

lemma comment_call_no_ingress:
  assumes "decoded r = Some request" and "req_Subdomain request = []"
      and "CreateCommentCall ow nm p body \<in> set (calls (ServeHTTP c r))"
  shows "\<exists>depl url. body = commentBody (ServerURL c) (cluster_Name r) (project_ID r)
                      (depl\<lparr>Status := DeploymentStatusCreated, Subdomain := ingress_disabled\<rparr>)
                      url (SuccessfulResources request)"
  using assms unfolding ServeHTTP_def finish_def Let_def render_ingress_def
  by (simp split: asm_splits) blast+

lemma written_no_ingress:
  assumes "decoded r = Some request" and "req_Subdomain request = []"
      and "outcome (ServeHTTP c r) = Written d"
  shows "Subdomain d = ingress_disabled"
  using assms unfolding ServeHTTP_def finish_def Let_def render_ingress_def
  by (simp split: asm_splits) force+

lemma saved_no_ingress:
  assumes "decoded r = Some request" and "req_Subdomain request = []"
      and "saved (ServeHTTP c r) = Some row"
  shows "Subdomain row = []"
  using assms unfolding ServeHTTP_def finish_def Let_def render_ingress_def
  by (simp split: asm_splits) force+

lemma status_no_ingress:
  assumes "decoded r = Some request" and "req_Subdomain request = []"
      and "CreateDeploymentStatusCall ow nm i q \<in> set (calls (ServeHTTP c r))"
  shows "EnvironmentURL q = []"
  using assms unfolding ServeHTTP_def finish_def Let_def render_ingress_def
  by (simp split: asm_splits)

text \<open>
  C2, as the claim states it, fails for the stored Deployment: the row is written before
  the sentinel replaces the empty subdomain, so the row written for a request with an
  empty subdomain has the empty string as its subdomain.
\<close>

theorem empty_subdomain_counterexample:
  "decoded (request0 ''shop'' ''pr-7'' [] []) =
     Some \<lparr>req_Namespace = ''pr-7'', req_Subdomain = [], SuccessfulResources = []\<rparr>
   \<and> map_option Subdomain (saved (ServeHTTP (backend0 ''open'') (request0 ''shop'' ''pr-7'' [] [])))
       = Some []"
  by (simp add: run_open_no_ingress) (simp add: request0_def)

text \<open>
  C2, amended: for a finalize call with an empty subdomain, every comment the handler
  posts shows the sentinel in its Live URL cell, and the Deployment whose view is returned
  has the sentinel as its subdomain; the sentinel is not the empty string. The row written
  to the store keeps the empty subdomain, and so does the environment URL of the
  status-check update.
\<close>

theorem empty_subdomain_rendering:
  assumes "decoded r = Some request" and "req_Subdomain request = []"
  shows "(\<forall>ow nm p body. CreateCommentCall ow nm p body \<in> set (calls (ServeHTTP c r)) \<longrightarrow>
            (\<exists>pre post. body = pre @ ''| Live URL | '' @ ingress_disabled @ '' |'' @ post))
       \<and> (\<forall>d. outcome (ServeHTTP c r) = Written d \<longrightarrow> Subdomain d = ingress_disabled)
       \<and> (\<forall>row. saved (ServeHTTP c r) = Some row \<longrightarrow> Subdomain row = [])
       \<and> (\<forall>ow nm i q. CreateDeploymentStatusCall ow nm i q \<in> set (calls (ServeHTTP c r)) \<longrightarrow>
            EnvironmentURL q = [])
       \<and> ingress_disabled \<noteq> []"
proof -
  have a: "\<exists>pre post. body = pre @ ''| Live URL | '' @ ingress_disabled @ '' |'' @ post"
    if "CreateCommentCall ow nm p body \<in> set (calls (ServeHTTP c r))" for ow nm p body
  proof -
    note call = that
    obtain depl url where b: "body = commentBody (ServerURL c) (cluster_Name r) (project_ID r)
                      (depl\<lparr>Status := DeploymentStatusCreated, Subdomain := ingress_disabled\<rparr>)
                      url (SuccessfulResources request)"
      using comment_call_no_ingress [OF assms call] by blast
    show ?thesis
      using commentBody_live_url [of "ServerURL c" "cluster_Name r" "project_ID r"
        "depl\<lparr>Status := DeploymentStatusCreated, Subdomain := ingress_disabled\<rparr>" url
        "SuccessfulResources request"] by (simp add: b)
  qed
  have e: "ingress_disabled \<noteq> []" by (simp add: ingress_disabled_def)
  show ?thesis
  proof (intro conjI allI impI)
    fix ow nm p body
    assume "CreateCommentCall ow nm p body \<in> set (calls (ServeHTTP c r))"
    then show "\<exists>pre post. body = pre @ ''| Live URL | '' @ ingress_disabled @ '' |'' @ post"
      by (rule a)
  next
    fix d assume "outcome (ServeHTTP c r) = Written d"
    then show "Subdomain d = ingress_disabled" by (rule written_no_ingress [OF assms])
  next
    fix row assume "saved (ServeHTTP c r) = Some row"
    then show "Subdomain row = []" by (rule saved_no_ingress [OF assms])
  next
    fix ow nm i q
    assume "CreateDeploymentStatusCall ow nm i q \<in> set (calls (ServeHTTP c r))"
    then show "EnvironmentURL q = []" by (rule status_no_ingress [OF assms])
  next
    show "ingress_disabled \<noteq> []" by (rule e)
  qed
qed

theorem empty_subdomain_rendering_witness:
  "outcome (ServeHTTP (backend0 ''open'') (request0 ''shop'' ''pr-7'' [] []))
     = Written (depl0\<lparr>Subdomain := ingress_disabled, Status := DeploymentStatusCreated\<rparr>)
   \<and> Subdomain (depl0\<lparr>Subdomain := ingress_disabled, Status := DeploymentStatusCreated\<rparr>)
       = ingress_disabled
   \<and> (\<exists>pre post.
        commentBody ''https://dashboard.example.com'' ''prod'' 1
          (depl0\<lparr>Subdomain := ingress_disabled, Status := DeploymentStatusCreated\<rparr>)
          ''https://github.com/acme/shop/actions/runs/1'' []
        = pre @ ''| Live URL | '' @ ingress_disabled @ '' |'' @ post)
   \<and> Subdomain (depl0\<lparr>Subdomain := [], Status := DeploymentStatusCreated\<rparr>) = []"
proof -
  let ?r = "request0 ''shop'' ''pr-7'' [] []"
  let ?req = "\<lparr>req_Namespace = ''pr-7'', req_Subdomain = [], SuccessfulResources = []\<rparr>"
  have h1: "decoded ?r = Some ?req" by (simp add: request0_def)
  have h2: "req_Subdomain ?req = []" by simp
  note t = empty_subdomain_rendering [OF h1 h2, of "backend0 ''open''"]
  have c: "CreateCommentCall ''acme'' ''shop'' 7
             (commentBody ''https://dashboard.example.com'' ''prod'' 1
                (depl0\<lparr>Subdomain := ingress_disabled, Status := DeploymentStatusCreated\<rparr>)
                ''https://github.com/acme/shop/actions/runs/1'' [])
           \<in> set (calls (ServeHTTP (backend0 ''open'') ?r))"
    by (simp add: run_open_no_ingress)
  have w: "outcome (ServeHTTP (backend0 ''open'') ?r)
     = Written (depl0\<lparr>Subdomain := ingress_disabled, Status := DeploymentStatusCreated\<rparr>)"
    by (simp add: run_open_no_ingress)
  note t1 = t [THEN conjunct1, rule_format, OF c]
  note t2 = t [THEN conjunct2, THEN conjunct1, rule_format, OF w]
  from t1 t2 w show ?thesis by simp
qed

subsection \<open>Composition of the summary comment\<close>

lemma job_link_neq_application_link:
  "job_link S cl ns pid n \<noteq> application_link S cl ns pid n"
  by (simp add: job_link_def application_link_def)

lemma commentBody_resources:
  assumes "rs \<noteq> []" and "Namespace d = ns"
  shows "commentBody S cl pid d url rs =
           comment_table S d url @ ''\<newline>#### Successfully deployed resources\<newline>''
           @ concat (map (\<lambda>res. if ReleaseType res = ''job''
                                  then job_link S cl ns pid (ReleaseName res)
                                  else application_link S cl ns pid (ReleaseName res)) rs)"
  using assms by (simp add: commentBody_def append_resources_concat Let_def)

lemma calls_up_to_comment:
  assumes "owner_and_name r = Some (owner, name)"
      and "decoded r = Some request"
      and "ReadEnvironment c (project_ID r) (cluster_ID r) (InstallationID r) owner name = Inr env"
      and "ReadDeployment c (env_ID env) (req_Namespace request) = Inr depl"
      and "UpdateDeployment c
             (depl\<lparr>Subdomain := req_Subdomain request, Status := DeploymentStatusCreated\<rparr>) = None"
      and "getGithubClientFromEnvironment c env = None"
      and "CreateDeploymentStatus c (GitRepoOwner env) (GitRepoName env) (GHDeploymentID depl)
             \<lparr>dsr_State = ''success'', EnvironmentURL = req_Subdomain request\<rparr> = None"
      and "isGithubPRClosed c owner name (int_of_uint (PullRequestID depl)) = Inr False"
      and "GetLatestWorkflowRun c (RepoOwner depl) (RepoName depl) (workflow_file env)
             (PRBranchFrom depl) = Inr run"
  shows "calls (ServeHTTP c r) =
           [CreateDeploymentStatusCall (GitRepoOwner env) (GitRepoName env) (GHDeploymentID depl)
              \<lparr>dsr_State = ''success'', EnvironmentURL = req_Subdomain request\<rparr>,
            PullRequestsGetCall owner name (int_of_uint (PullRequestID depl)),
            GetLatestWorkflowRunCall (RepoOwner depl) (RepoName depl) (workflow_file env)
              (PRBranchFrom depl),
            CreateCommentCall (GitRepoOwner env) (GitRepoName env)
              (int_of_uint (PullRequestID depl))
              (commentBody (ServerURL c) (cluster_Name r) (project_ID r)
                 (render_ingress
                    (depl\<lparr>Subdomain := req_Subdomain request,
                           Status := DeploymentStatusCreated\<rparr>))
                 (GetHTMLURL run) (SuccessfulResources request))]"
  using assms
  by (simp add: ServeHTTP_def finish_def Let_def render_ingress_simps split: option.split)

lemmas path0 = backend0_def request0_def env0_def depl0_def
  isGithubPRClosed_def GetState_def int_of_uint_def workflow_file_def

text \<open>
  C5: when finalize gets as far as the comment (the Environment and the Deployment are
  read, the row is written, the status check is updated, the pull request is open and the
  workflow run is found), the Deployment has commit \<^verbatim>\<open>abc123\<close>, the live URL of the request
  is \<^verbatim>\<open>foo.example.com\<close> and its only successful resource is \<^verbatim>\<open>worker\<close> of kind \<^verbatim>\<open>job\<close>, then
  the handler generates exactly one comment: the table of deployment information, the
  resources heading and one line made by the job template, which is not the line the
  application template gives. The comment contains the short link of the commit and the
  live URL. In the concrete run the text \<^verbatim>\<open>/jobs/\<close> occurs once in the comment and the text
  \<^verbatim>\<open>/applications/\<close> does not occur.
\<close>

theorem comment_for_one_job:
  assumes "owner_and_name r = Some (owner, name)"
      and "decoded r = Some request"
      and "ReadEnvironment c (project_ID r) (cluster_ID r) (InstallationID r) owner name = Inr env"
      and "ReadDeployment c (env_ID env) (req_Namespace request) = Inr depl"
      and "UpdateDeployment c
             (depl\<lparr>Subdomain := req_Subdomain request, Status := DeploymentStatusCreated\<rparr>) = None"
      and "getGithubClientFromEnvironment c env = None"
      and "CreateDeploymentStatus c (GitRepoOwner env) (GitRepoName env) (GHDeploymentID depl)
             \<lparr>dsr_State = ''success'', EnvironmentURL = req_Subdomain request\<rparr> = None"
      and "isGithubPRClosed c owner name (int_of_uint (PullRequestID depl)) = Inr False"
      and "GetLatestWorkflowRun c (RepoOwner depl) (RepoName depl) (workflow_file env)
             (PRBranchFrom depl) = Inr run"
      and "CommitSHA depl = ''abc123''"
      and "req_Subdomain request = ''foo.example.com''"
      and "SuccessfulResources request = [\<lparr>ReleaseName = ''worker'', ReleaseType = ''job''\<rparr>]"
  shows "\<exists>body.
           body = comment_table (ServerURL c)
                    (depl\<lparr>Subdomain := ''foo.example.com'', Status := DeploymentStatusCreated\<rparr>)
                    (GetHTMLURL run)
                  @ ''\<newline>#### Successfully deployed resources\<newline>''
                  @ job_link (ServerURL c) (cluster_Name r) (Namespace depl) (project_ID r) ''worker''
         \<and> CreateCommentCall (GitRepoOwner env) (GitRepoName env)
               (int_of_uint (PullRequestID depl)) body \<in> set (calls (ServeHTTP c r))
         \<and> (\<forall>ow nm p b. CreateCommentCall ow nm p b \<in> set (calls (ServeHTTP c r)) \<longrightarrow> b = body)
         \<and> (\<exists>pre post. body = pre @ ''[`abc123`](https://github.com/'' @ RepoOwner depl @ ''/''
                @ RepoName depl @ ''/commit/abc123)'' @ post)
         \<and> (\<exists>pre post. body = pre @ ''| Live URL | foo.example.com |'' @ post)
         \<and> job_link (ServerURL c) (cluster_Name r) (Namespace depl) (project_ID r) ''worker''
             \<noteq> application_link (ServerURL c) (cluster_Name r) (Namespace depl) (project_ID r)
                 ''worker''"
proof -
  let ?d = "depl\<lparr>Subdomain := ''foo.example.com'', Status := DeploymentStatusCreated\<rparr>"
  let ?table = "comment_table (ServerURL c) ?d (GetHTMLURL run)"
  let ?rest = "''\<newline>#### Successfully deployed resources\<newline>''
                  @ job_link (ServerURL c) (cluster_Name r) (Namespace depl) (project_ID r) ''worker''"
  let ?body = "commentBody (ServerURL c) (cluster_Name r) (project_ID r)
                 (render_ingress
                    (depl\<lparr>Subdomain := req_Subdomain request,
                           Status := DeploymentStatusCreated\<rparr>))
                 (GetHTMLURL run) (SuccessfulResources request)"
  have rd: "render_ingress
              (depl\<lparr>Subdomain := req_Subdomain request, Status := DeploymentStatusCreated\<rparr>) = ?d"
    by (simp add: render_ingress_def assms(11))
  have rs: "SuccessfulResources request \<noteq> []" by (simp add: assms(12))
  have eq: "?body = ?table @ ?rest"
    unfolding rd
    using commentBody_resources [OF rs, of ?d "Namespace depl" "ServerURL c" "cluster_Name r"
            "project_ID r" "GetHTMLURL run"]
    by (simp add: assms(12))
  have cs: "CreateCommentCall (GitRepoOwner env) (GitRepoName env)
               (int_of_uint (PullRequestID depl)) ?body \<in> set (calls (ServeHTTP c r))"
    and un: "\<forall>ow nm p b. CreateCommentCall ow nm p b \<in> set (calls (ServeHTTP c r)) \<longrightarrow> b = ?body"
    by (simp_all add: calls_up_to_comment [OF assms(1-9)])
  obtain pre post where cm: "?table = pre @ commit_link ?d @ post"
    using comment_table_commit_link by blast
  have commit: "\<exists>pre post. ?table @ ?rest = pre @ ''[`abc123`](https://github.com/'' @ RepoOwner depl
                @ ''/'' @ RepoName depl @ ''/commit/abc123)'' @ post"
    apply (rule exI [of _ pre])
    apply (rule exI [of _ "post @ ?rest"])
    apply (simp add: cm commit_link_def assms(10))
    done
  obtain pre' post' where lv: "?table = pre' @ ''| Live URL | '' @ Subdomain ?d @ '' |'' @ post'"
    using comment_table_live_url by blast
  have live: "\<exists>pre post. ?table @ ?rest = pre @ ''| Live URL | foo.example.com |'' @ post"
    apply (rule exI [of _ pre'])
    apply (rule exI [of _ "post' @ ?rest"])
    using lv apply simp
    done
  show ?thesis
    apply (rule exI [of _ "?table @ ?rest"])
    apply (intro conjI)
         apply simp
        apply (rule cs [unfolded eq])
       apply (rule un [unfolded eq])
      apply (rule commit)
     apply (rule live)
    apply (rule job_link_neq_application_link)
    done
qed

theorem comment_for_one_job_witness:
  "CreateCommentCall ''acme'' ''shop'' 7 comment_one_job
   \<in> set (calls (ServeHTTP (backend0 ''open'')
                     (request0 ''shop'' ''pr-7'' ''foo.example.com''
                        [\<lparr>ReleaseName = ''worker'', ReleaseType = ''job''\<rparr>])))
   \<and> occurrences ''[`abc123`](https://github.com/acme/shop/commit/abc123)'' comment_one_job = 1
   \<and> occurrences ''| Live URL | foo.example.com |'' comment_one_job = 1
   \<and> occurrences ''/jobs/'' comment_one_job = 1
   \<and> occurrences ''/applications/'' comment_one_job = 0"
proof -
  let ?c = "backend0 ''open''"
  let ?rs = "[\<lparr>ReleaseName = ''worker'', ReleaseType = ''job''\<rparr>]"
  let ?r = "request0 ''shop'' ''pr-7'' ''foo.example.com'' ?rs"
  let ?req = "\<lparr>req_Namespace = ''pr-7'', req_Subdomain = ''foo.example.com'',
               SuccessfulResources = ?rs\<rparr>"
  let ?run = "\<lparr>HTMLURL = Some ''https://github.com/acme/shop/actions/runs/1''\<rparr>"
  have t: "\<exists>body.
           body = comment_table (ServerURL ?c)
                    (depl0\<lparr>Subdomain := ''foo.example.com'', Status := DeploymentStatusCreated\<rparr>)
                    (GetHTMLURL ?run)
                  @ ''\<newline>#### Successfully deployed resources\<newline>''
                  @ job_link (ServerURL ?c) (cluster_Name ?r) (Namespace depl0) (project_ID ?r) ''worker''
         \<and> CreateCommentCall (GitRepoOwner env0) (GitRepoName env0)
               (int_of_uint (PullRequestID depl0)) body \<in> set (calls (ServeHTTP ?c ?r))
         \<and> (\<forall>ow nm p b. CreateCommentCall ow nm p b \<in> set (calls (ServeHTTP ?c ?r)) \<longrightarrow> b = body)
         \<and> (\<exists>pre post. body = pre @ ''[`abc123`](https://github.com/'' @ RepoOwner depl0 @ ''/''
                @ RepoName depl0 @ ''/commit/abc123)'' @ post)
         \<and> (\<exists>pre post. body = pre @ ''| Live URL | foo.example.com |'' @ post)
         \<and> job_link (ServerURL ?c) (cluster_Name ?r) (Namespace depl0) (project_ID ?r) ''worker''
             \<noteq> application_link (ServerURL ?c) (cluster_Name ?r) (Namespace depl0) (project_ID ?r)
                 ''worker''"
    by (rule comment_for_one_job [where owner = "''acme''" and name = "''shop''"
          and request = ?req])
       (simp_all add: path0)
  then obtain body where
      b: "body = comment_table (ServerURL ?c)
                    (depl0\<lparr>Subdomain := ''foo.example.com'', Status := DeploymentStatusCreated\<rparr>)
                    (GetHTMLURL ?run)
                  @ ''\<newline>#### Successfully deployed resources\<newline>''
                  @ job_link (ServerURL ?c) (cluster_Name ?r) (Namespace depl0) (project_ID ?r) ''worker''"
    and m: "CreateCommentCall (GitRepoOwner env0) (GitRepoName env0)
               (int_of_uint (PullRequestID depl0)) body \<in> set (calls (ServeHTTP ?c ?r))"
    by (elim exE conjE)
  have lit: "body = comment_one_job"
    unfolding b comment_one_job_def
    by (simp add: comment_table_def commit_link_def job_link_def GetHTMLURL_def backend0_def
          request0_def depl0_def fmt_uint_def decimal.simps digit_def)
  have m': "CreateCommentCall ''acme'' ''shop'' 7 comment_one_job \<in> set (calls (ServeHTTP ?c ?r))"
    using m unfolding lit by (simp add: env0_def depl0_def int_of_uint_def)
  have j: "occurrences ''/jobs/'' comment_one_job = 1"
    by (simp add: comment_one_job_def check_mark_def)
  have a: "occurrences ''/applications/'' comment_one_job = 0"
    by (simp add: comment_one_job_def check_mark_def)
  have k: "occurrences ''[`abc123`](https://github.com/acme/shop/commit/abc123)'' comment_one_job = 1"
    by (simp add: comment_one_job_def check_mark_def)
  have l: "occurrences ''| Live URL | foo.example.com |'' comment_one_job = 1"
    by (simp add: comment_one_job_def check_mark_def)
  from m' k l j a show ?thesis by (intro conjI)
qed

text \<open>
  C10: when finalize gets as far as the comment, it generates exactly one comment: the
  table of deployment information followed, when the request has successful resources, by
  the heading and one line per resource, in order. The line of a resource is made by the
  job template exactly when its release kind equals the string \<^verbatim>\<open>job\<close>, and by the
  application template for every other kind; the two templates never give the same line.
  The concrete run renders the kinds \<^verbatim>\<open>job\<close>, \<^verbatim>\<open>Job\<close>, \<^verbatim>\<open>cronjob\<close> and the empty string: one
  job link and three application links.
\<close>

theorem resource_link_choice:
  assumes "owner_and_name r = Some (owner, name)"
      and "decoded r = Some request"
      and "ReadEnvironment c (project_ID r) (cluster_ID r) (InstallationID r) owner name = Inr env"
      and "ReadDeployment c (env_ID env) (req_Namespace request) = Inr depl"
      and "UpdateDeployment c
             (depl\<lparr>Subdomain := req_Subdomain request, Status := DeploymentStatusCreated\<rparr>) = None"
      and "getGithubClientFromEnvironment c env = None"
      and "CreateDeploymentStatus c (GitRepoOwner env) (GitRepoName env) (GHDeploymentID depl)
             \<lparr>dsr_State = ''success'', EnvironmentURL = req_Subdomain request\<rparr> = None"
      and "isGithubPRClosed c owner name (int_of_uint (PullRequestID depl)) = Inr False"
      and "GetLatestWorkflowRun c (RepoOwner depl) (RepoName depl) (workflow_file env)
             (PRBranchFrom depl) = Inr run"
  shows "\<exists>body.
           body = comment_table (ServerURL c)
                    (render_ingress
                       (depl\<lparr>Subdomain := req_Subdomain request,
                              Status := DeploymentStatusCreated\<rparr>))
                    (GetHTMLURL run)
                  @ (if SuccessfulResources request = [] then []
                     else ''\<newline>#### Successfully deployed resources\<newline>''
                       @ concat (map (\<lambda>res.
                           if ReleaseType res = ''job''
                           then job_link (ServerURL c) (cluster_Name r) (Namespace depl)
                                  (project_ID r) (ReleaseName res)
                           else application_link (ServerURL c) (cluster_Name r) (Namespace depl)
                                  (project_ID r) (ReleaseName res))
                         (SuccessfulResources request)))
         \<and> CreateCommentCall (GitRepoOwner env) (GitRepoName env)
               (int_of_uint (PullRequestID depl)) body \<in> set (calls (ServeHTTP c r))
         \<and> (\<forall>ow nm p b. CreateCommentCall ow nm p b \<in> set (calls (ServeHTTP c r)) \<longrightarrow> b = body)
         \<and> (\<forall>n. job_link (ServerURL c) (cluster_Name r) (Namespace depl) (project_ID r) n
                \<noteq> application_link (ServerURL c) (cluster_Name r) (Namespace depl) (project_ID r) n)"
proof -
  let ?d = "render_ingress
              (depl\<lparr>Subdomain := req_Subdomain request, Status := DeploymentStatusCreated\<rparr>)"
  let ?body = "commentBody (ServerURL c) (cluster_Name r) (project_ID r) ?d (GetHTMLURL run)
                 (SuccessfulResources request)"
  have ns: "Namespace ?d = Namespace depl" by (simp add: render_ingress_simps)
  have eq: "?body = comment_table (ServerURL c) ?d (GetHTMLURL run)
                  @ (if SuccessfulResources request = [] then []
                     else ''\<newline>#### Successfully deployed resources\<newline>''
                       @ concat (map (\<lambda>res.
                           if ReleaseType res = ''job''
                           then job_link (ServerURL c) (cluster_Name r) (Namespace depl)
                                  (project_ID r) (ReleaseName res)
                           else application_link (ServerURL c) (cluster_Name r) (Namespace depl)
                                  (project_ID r) (ReleaseName res))
                         (SuccessfulResources request)))"
  proof (cases "SuccessfulResources request = []")
    case True
    then show ?thesis by (simp add: commentBody_def)
  next
    case False
    then show ?thesis using commentBody_resources [OF False ns] by simp
  qed
  have cs: "CreateCommentCall (GitRepoOwner env) (GitRepoName env)
               (int_of_uint (PullRequestID depl)) ?body \<in> set (calls (ServeHTTP c r))"
    and un: "\<forall>ow nm p b. CreateCommentCall ow nm p b \<in> set (calls (ServeHTTP c r)) \<longrightarrow> b = ?body"
    by (simp_all add: calls_up_to_comment [OF assms])
  show ?thesis
    apply (rule exI [of _ ?body])
    apply (intro conjI)
       apply (rule eq)
      apply (rule cs)
     apply (rule un)
    apply (simp add: job_link_neq_application_link)
    done
qed

theorem resource_link_choice_witness:
  "CreateCommentCall ''acme'' ''shop'' 7 comment_four_kinds
   \<in> set (calls (ServeHTTP (backend0 ''open'')
                     (request0 ''shop'' ''pr-7'' ''foo.example.com'' four_kinds)))
   \<and> occurrences ''/jobs/'' comment_four_kinds = 1
   \<and> occurrences ''/applications/'' comment_four_kinds = 3"
proof -
  let ?c = "backend0 ''open''"
  let ?r = "request0 ''shop'' ''pr-7'' ''foo.example.com'' four_kinds"
  let ?req = "\<lparr>req_Namespace = ''pr-7'', req_Subdomain = ''foo.example.com'',
               SuccessfulResources = four_kinds\<rparr>"
  let ?run = "\<lparr>HTMLURL = Some ''https://github.com/acme/shop/actions/runs/1''\<rparr>"
  have t: "\<exists>body.
           body = comment_table (ServerURL ?c)
                    (render_ingress
                       (depl0\<lparr>Subdomain := req_Subdomain ?req,
                              Status := DeploymentStatusCreated\<rparr>))
                    (GetHTMLURL ?run)
                  @ (if SuccessfulResources ?req = [] then []
                     else ''\<newline>#### Successfully deployed resources\<newline>''
                       @ concat (map (\<lambda>res.
                           if ReleaseType res = ''job''
                           then job_link (ServerURL ?c) (cluster_Name ?r) (Namespace depl0)
                                  (project_ID ?r) (ReleaseName res)
                           else application_link (ServerURL ?c) (cluster_Name ?r) (Namespace depl0)
                                  (project_ID ?r) (ReleaseName res))
                         (SuccessfulResources ?req)))
         \<and> CreateCommentCall (GitRepoOwner env0) (GitRepoName env0)
               (int_of_uint (PullRequestID depl0)) body \<in> set (calls (ServeHTTP ?c ?r))
         \<and> (\<forall>ow nm p b. CreateCommentCall ow nm p b \<in> set (calls (ServeHTTP ?c ?r)) \<longrightarrow> b = body)
         \<and> (\<forall>n. job_link (ServerURL ?c) (cluster_Name ?r) (Namespace depl0) (project_ID ?r) n
                \<noteq> application_link (ServerURL ?c) (cluster_Name ?r) (Namespace depl0) (project_ID ?r) n)"
    by (rule resource_link_choice [where owner = "''acme''" and name = "''shop''"])
       (simp_all add: path0)
  then obtain body where
      b: "body = comment_table (ServerURL ?c)
                    (render_ingress
                       (depl0\<lparr>Subdomain := req_Subdomain ?req,
                              Status := DeploymentStatusCreated\<rparr>))
                    (GetHTMLURL ?run)
                  @ (if SuccessfulResources ?req = [] then []
                     else ''\<newline>#### Successfully deployed resources\<newline>''
                       @ concat (map (\<lambda>res.
                           if ReleaseType res = ''job''
                           then job_link (ServerURL ?c) (cluster_Name ?r) (Namespace depl0)
                                  (project_ID ?r) (ReleaseName res)
                           else application_link (ServerURL ?c) (cluster_Name ?r) (Namespace depl0)
                                  (project_ID ?r) (ReleaseName res))
                         (SuccessfulResources ?req)))"
    and m: "CreateCommentCall (GitRepoOwner env0) (GitRepoName env0)
               (int_of_uint (PullRequestID depl0)) body \<in> set (calls (ServeHTTP ?c ?r))"
    by (elim exE conjE)
  have lit: "body = comment_four_kinds"
    unfolding b comment_four_kinds_def
    by (simp add: four_kinds_def comment_table_def commit_link_def job_link_def
          application_link_def render_ingress_def GetHTMLURL_def backend0_def request0_def
          depl0_def fmt_uint_def decimal.simps digit_def)
  have m': "CreateCommentCall ''acme'' ''shop'' 7 comment_four_kinds
              \<in> set (calls (ServeHTTP ?c ?r))"
    using m unfolding lit by (simp add: env0_def depl0_def int_of_uint_def)
  have j: "occurrences ''/jobs/'' comment_four_kinds = 1"
    by (simp add: comment_four_kinds_def check_mark_def)
  have a: "occurrences ''/applications/'' comment_four_kinds = 3"
    by (simp add: comment_four_kinds_def check_mark_def)
  from m' j a show ?thesis by (intro conjI)
qed

section \<open>Properties of the provisioning handlers\<close>

lemmas app_defs = app0_def http0_def world0_def HandleProvisionAWSECRInfra_def
  HandleGetProvisioningLogs_def streamName_def decimal_ParseUint_def digit_of_def
  admit_all_def refuse_duplicates_def

lemma run_first_launch:
  "HandleProvisionAWSECRInfra (app0 admit_all) world0 (http0 [] ''1'' [] (ecr_body ''repo'')) =
     (\<lparr>answer = StatusCreated \<lparr>infra_ID = 7, AWSIntegrationID = 4\<rparr> None,
       launched = [(1, \<lparr>awsint_ID = 4\<rparr>, ''repo'')]\<rparr>,
      \<lparr>running = [(1, \<lparr>awsint_ID = 4\<rparr>, ''repo'')], next_infra_ID = 8\<rparr>)"
  by (simp add: app_defs Let_def)

lemma run_second_launch:
  "HandleProvisionAWSECRInfra (app0 admit_all)
     \<lparr>running = [(1, \<lparr>awsint_ID = 4\<rparr>, ''repo'')], next_infra_ID = 8\<rparr>
     (http0 [] ''1'' [] (ecr_body ''repo'')) =
     (\<lparr>answer = StatusCreated \<lparr>infra_ID = 8, AWSIntegrationID = 4\<rparr> None,
       launched = [(1, \<lparr>awsint_ID = 4\<rparr>, ''repo'')]\<rparr>,
      \<lparr>running = [(1, \<lparr>awsint_ID = 4\<rparr>, ''repo''), (1, \<lparr>awsint_ID = 4\<rparr>, ''repo'')],
       next_infra_ID = 9\<rparr>)"
  by (simp add: app_defs Let_def)


lemma run_not_json:
  "fst (HandleProvisionAWSECRInfra (app0 admit_all) world0 (http0 [] ''1'' [] ''repo'')) =
     \<lparr>answer = Refused (handleErrorFormDecoding (Some ''invalid character'')), launched = []\<rparr>"
  by (simp add: app_defs Let_def ecr_body_def)

subsection \<open>Launching a provisioning run\<close>




subsection \<open>The stream name of the log relay\<close>

lemma launch_job_ignores_infra_ID:
  "launched (fst (HandleProvisionAWSECRInfra app (w\<lparr>next_infra_ID := k\<rparr>) r))
     = launched (fst (HandleProvisionAWSECRInfra app w r))"
  by (simp add: HandleProvisionAWSECRInfra_def Let_def
        split: sum.split option.split)

text \<open>
  C6, as the claim states it, fails on the side of the dispatcher: the launch handler
  computes no stream identifier and hands the substrate a job that does not carry the ID
  of the infra row. Two launches with the same request create the infra rows 7 and 8 and
  hand the substrate the same job, while the stream names an observer derives for the two
  rows differ; so no function of what the dispatcher hands over gives both names.
\<close>

theorem stream_name_counterexample:
  "launched (fst (HandleProvisionAWSECRInfra (app0 admit_all) world0
               (http0 [] ''1'' [] (ecr_body ''repo''))))
     = launched (fst (HandleProvisionAWSECRInfra (app0 admit_all)
               \<lparr>running = [(1, \<lparr>awsint_ID = 4\<rparr>, ''repo'')], next_infra_ID = 8\<rparr>
               (http0 [] ''1'' [] (ecr_body ''repo''))))
   \<and> answer (fst (HandleProvisionAWSECRInfra (app0 admit_all) world0
               (http0 [] ''1'' [] (ecr_body ''repo''))))
     = StatusCreated \<lparr>infra_ID = 7, AWSIntegrationID = 4\<rparr> None
   \<and> answer (fst (HandleProvisionAWSECRInfra (app0 admit_all)
               \<lparr>running = [(1, \<lparr>awsint_ID = 4\<rparr>, ''repo'')], next_infra_ID = 8\<rparr>
               (http0 [] ''1'' [] (ecr_body ''repo''))))
     = StatusCreated \<lparr>infra_ID = 8, AWSIntegrationID = 4\<rparr> None
   \<and> fst (attached (HandleGetProvisioningLogs (app0 admit_all) (http0 ''ecr'' ''1'' ''7'' [])))
     = ''ecr-1-7''
   \<and> fst (attached (HandleGetProvisioningLogs (app0 admit_all) (http0 ''ecr'' ''1'' ''8'' [])))
     = ''ecr-1-8''
   \<and> \<not> (\<exists>f. f (launched (fst (HandleProvisionAWSECRInfra (app0 admit_all) world0
               (http0 [] ''1'' [] (ecr_body ''repo''))))) = ''ecr-1-7''
          \<and> f (launched (fst (HandleProvisionAWSECRInfra (app0 admit_all)
               \<lparr>running = [(1, \<lparr>awsint_ID = 4\<rparr>, ''repo'')], next_infra_ID = 8\<rparr>
               (http0 [] ''1'' [] (ecr_body ''repo''))))) = ''ecr-1-8'')"
  by (simp add: run_first_launch run_second_launch)
     (simp add: HandleGetProvisioningLogs_def streamName_def app0_def http0_def Let_def)

text \<open>
  C6, amended: the stream name handed to \<^verbatim>\<open>ResourceStream\<close> is the kind, the project ID and
  the infra ID of the route, joined by hyphens, and two attach calls whose three
  parameters agree use the same stream name, whatever else differs in the request, in the
  application or in the outcome of the websocket upgrade. The job that a launch hands to
  the substrate does not depend on the ID the infra row gets.
\<close>

theorem stream_name_deterministic:
  "(URLParam r1 ''kind'' = URLParam r2 ''kind''
      \<and> URLParam r1 ''project_id'' = URLParam r2 ''project_id''
      \<and> URLParam r1 ''infra_id'' = URLParam r2 ''infra_id'' \<longrightarrow>
        fst (attached (HandleGetProvisioningLogs app1 r1))
          = fst (attached (HandleGetProvisioningLogs app2 r2)))
   \<and> fst (attached (HandleGetProvisioningLogs app1 r1))
       = URLParam r1 ''kind'' @ ''-'' @ URLParam r1 ''project_id'' @ ''-'' @ URLParam r1 ''infra_id''
   \<and> launched (fst (HandleProvisionAWSECRInfra app (w\<lparr>next_infra_ID := k\<rparr>) r))
       = launched (fst (HandleProvisionAWSECRInfra app w r))"
  using launch_job_ignores_infra_ID [where app = app and w = w and k = k and r = r]
  by (simp add: HandleGetProvisioningLogs_def streamName_def Let_def
        split: sum.split option.split prod.split)

theorem stream_name_deterministic_witness:
  "fst (attached (HandleGetProvisioningLogs (app0 admit_all) (http0 ''ecr'' ''1'' ''7'' [])))
     = fst (attached (HandleGetProvisioningLogs
         ((app0 refuse_duplicates)
            \<lparr>Upgrade := (\<lambda>r. Inl ''bad handshake''),
             ResourceStream := (\<lambda>name c. Some ''closed'')\<rparr>)
         (http0 ''ecr'' ''1'' ''7'' ''other'')))
   \<and> fst (attached (HandleGetProvisioningLogs (app0 admit_all) (http0 ''ecr'' ''1'' ''7'' [])))
     = ''ecr-1-7''
   \<and> launched (fst (HandleProvisionAWSECRInfra (app0 admit_all) (world0\<lparr>next_infra_ID := 8\<rparr>)
                      (http0 [] ''1'' [] (ecr_body ''repo''))))
     = launched (fst (HandleProvisionAWSECRInfra (app0 admit_all) world0
                      (http0 [] ''1'' [] (ecr_body ''repo''))))"
proof -
  let ?r1 = "http0 ''ecr'' ''1'' ''7'' []"
  let ?r2 = "http0 ''ecr'' ''1'' ''7'' ''other''"
  let ?a2 = "(app0 refuse_duplicates)
            \<lparr>Upgrade := (\<lambda>r. Inl ''bad handshake''),
             ResourceStream := (\<lambda>name c. Some ''closed'')\<rparr>"
  have h: "URLParam ?r1 ''kind'' = URLParam ?r2 ''kind''
         \<and> URLParam ?r1 ''project_id'' = URLParam ?r2 ''project_id''
         \<and> URLParam ?r1 ''infra_id'' = URLParam ?r2 ''infra_id''"
    by (simp add: http0_def)
  have p: "URLParam ?r1 ''kind'' @ ''-'' @ URLParam ?r1 ''project_id'' @ ''-''
             @ URLParam ?r1 ''infra_id'' = ''ecr-1-7''"
    by (simp add: http0_def)
  note t = stream_name_deterministic [where ?r1.0 = ?r1 and ?r2.0 = ?r2
      and ?app1.0 = "app0 admit_all" and ?app2.0 = ?a2 and app = "app0 admit_all"
      and w = world0 and k = 8 and r = "http0 [] ''1'' [] (ecr_body ''repo'')"]
  note t1 = t [THEN conjunct1, THEN mp, OF h]
  note t2 = t [THEN conjunct2, THEN conjunct1, unfolded p]
  note t3 = t [THEN conjunct2, THEN conjunct2]
  from t1 t2 t3 show ?thesis by (intro conjI)
qed

end
